theory Spec2Isabelle
  imports Main
begin

section \<open>Shared data: environment, errors, aborts\<close>

text \<open>
  The process environment is a partial map from variable names to values: a variable
  may be unset, or set to the empty string. Go's \<open>os.Getenv\<close> does not tell the
  two apart: it returns the empty string for both.
\<close>

type_synonym environ = "string \<rightharpoonup> string"

definition os_Getenv :: "environ \<Rightarrow> string \<Rightarrow> string" where
  "os_Getenv env key = (case env key of None \<Rightarrow> [] | Some v \<Rightarrow> v)"

text \<open>
  Go \<open>error\<close> values. \<open>ExternalError\<close> is an error handed back by a library outside
  the repository (secret store, token parser, document store, env-file loader); the
  other constructors are the errors the repository builds itself with \<open>fmt.Errorf\<close>.
\<close>

datatype error =
    ExternalError string
  | BothEmpty string string
  | RequiredSecretFailed string error
  | ProjectIDRequired
  | UnsupportedConfigMode string
  | InvalidRefreshToken
  | NotARefreshToken

text \<open>
  \<open>log.Fatal\<close> and \<open>log.Fatalf\<close> end the process (\<open>os.Exit(1)\<close>): the call never
  returns to its caller. A function that may do so returns \<open>abort + 'a\<close>, with
  \<open>Inl\<close> the abort.
\<close>

datatype abort =
    FailedToLoadConfiguration error
  | ConfigurationNotLoaded
  | DatabaseNotConnected

text \<open>\<open>err.Error()\<close>: the message of an error, as the \<open>fmt.Errorf\<close> calls format it.\<close>

fun Error :: "error \<Rightarrow> string" where
  "Error (ExternalError msg) = msg"
| "Error (BothEmpty secretKey envKey) =
     ''both secret '' @ secretKey @ '' and environment variable '' @ envKey @ '' are empty''"
| "Error (RequiredSecretFailed secretKey err) =
     ''required secret '' @ secretKey @ '' failed to load: '' @ Error err"
| "Error ProjectIDRequired = ''Google Cloud project ID is required for Secret Manager mode''"
| "Error (UnsupportedConfigMode m) = ''unsupported config mode: '' @ m"
| "Error InvalidRefreshToken = ''invalid refresh token''"
| "Error NotARefreshToken = ''not a refresh token''"

section \<open>Values exchanged with the libraries\<close>

text \<open>
  The values of a \<open>jwt.MapClaims\<close> (\<open>map[string]interface{}\<close>): what JSON decoding
  produces. A key that is absent and a key bound to \<open>nil\<close> both read as \<open>nil\<close>.
  Numbers are the integral Unix times this code writes.
\<close>

datatype json_value =
    JNull
  | JBool bool
  | JNumber int
  | JString string
  | JArray "json_value list"
  | JObject "(string \<times> json_value) list"

type_synonym MapClaims = "string \<rightharpoonup> json_value"

text \<open>
  \<open>token.Claims\<close> has the interface type \<open>jwt.Claims\<close>; the code tests with a type
  assertion that it holds a \<open>jwt.MapClaims\<close>.
\<close>

datatype jwt_Claims = IsMapClaims MapClaims | OtherClaims

record jwt_Token =
  Claims :: jwt_Claims
  Valid :: bool

datatype mongo_Client = Client string

record mongo_Collection =
  collClient :: mongo_Client
  collDatabase :: string
  collName :: string

type_synonym ObjectID = nat

record AuditLog =
  ID :: ObjectID
  AdminID :: string
  Action :: string
  TargetID :: string
  Timestamp :: int

section \<open>Package config: env.go\<close>

text \<open>
  The file holds two revisions of the package; the model follows the first, current
  one (version 2.0.0, with \<open>LoadEnvWithOptions\<close>), not the older \<open>LoadEnv\<close> that only
  read the \<open>.env\<close> file. Lines written with \<open>log.Printf\<close> and \<open>log.Println\<close> go to
  the process log and are left out.

  \<open>type ConfigMode string\<close>: a mode is any string; three of them are named.
\<close>

type_synonym ConfigMode = string

definition ConfigVersion :: string where
  "ConfigVersion = ''2.0.0''"

definition ModeBasic :: ConfigMode where
  "ModeBasic = ''basic''"

definition ModeSecretManager :: ConfigMode where
  "ModeSecretManager = ''secret_manager''"

definition ModeAuto :: ConfigMode where
  "ModeAuto = ''auto''"

record AppConfig =
  Mode :: ConfigMode
  AppEnv :: string
  ProjectID :: string
  MongoURI :: string
  DBName :: string
  JWTSecret :: string
  NATSURL :: string
  AllowedOrigins :: string
  Port :: string
  Version :: string
  LoadTime :: int

record ConfigOptions =
  optMode :: ConfigMode
  EnableSecretManager :: bool
  SecretManagerProject :: string
  RequiredSecrets :: "string list"
  OptionalSecrets :: "string list"
  FallbackToEnv :: bool

text \<open>
  What the code consumes from outside the repository, as parameters:
  \<^item> \<open>fetchSecret projectID secretName\<close> is \<open>getSecretFromGoogleSecretManager\<close>, the
    call to the cloud secret store;
  \<^item> \<open>godotenv_Load env\<close> is \<open>godotenv.Load()\<close>, which may fail and may set variables
    of the process environment;
  \<^item> \<open>time_Now\<close> is the clock reading of \<open>time.Now()\<close>, in Unix seconds;
  \<^item> \<open>rangeOrder\<close> is the order in which \<open>range\<close> visits the entries of
    \<open>secretMap\<close> (Go leaves the iteration order of a map unspecified);
  \<^item> \<open>NewObjectID\<close> is the identifier \<open>primitive.NewObjectID()\<close> hands out;
  \<^item> \<open>InsertOne collection document\<close> is the error of the driver's
    \<open>collection.InsertOne\<close> (\<open>None\<close> for \<open>nil\<close>);
  \<^item> \<open>jwt_Parse tokenString key\<close> is \<open>jwt.Parse\<close> with a key function that returns
    \<open>key\<close>; \<open>jwt_ParseWithClaims tokenString key\<close> is \<open>jwt.ParseWithClaims\<close> on
    an empty \<open>MapClaims\<close>, returning the claims as filled and the error;
    \<open>jwt_SignedString claims key\<close> is \<open>jwt.NewWithClaims(HS256, claims).SignedString(key)\<close>.
\<close>

record world =
  fetchSecret :: "string \<Rightarrow> string \<Rightarrow> error + string"
  godotenv_Load :: "environ \<Rightarrow> error option \<times> environ"
  time_Now :: int
  rangeOrder :: "(string \<times> string) list"
  NewObjectID :: ObjectID
  InsertOne :: "mongo_Collection \<Rightarrow> AuditLog \<Rightarrow> error option"
  jwt_Parse :: "string \<Rightarrow> string \<Rightarrow> error + jwt_Token"
  jwt_ParseWithClaims :: "string \<Rightarrow> string \<Rightarrow> MapClaims \<times> error option"
  jwt_SignedString :: "MapClaims \<Rightarrow> string \<Rightarrow> error + string"

text \<open>
  The package-level variables \<open>Config\<close> (a pointer, \<open>nil\<close> before loading),
  \<open>once\<close> (has \<open>once.Do\<close> run?) and \<open>DB\<close> (the client, \<open>nil\<close> before
  \<open>ConnectDB\<close>), together with the process environment the package reads. The mutex
  \<open>configMux\<close> only serialises accesses and has no sequential content.
\<close>

record pkg_state =
  Config :: "AppConfig option"
  onceDone :: bool
  environ :: environ
  DB :: "mongo_Client option"

definition GetEnv :: "environ \<Rightarrow> string \<Rightarrow> string \<Rightarrow> string" where
  "GetEnv env key fallback =
     (let v = os_Getenv env key in if v = [] then fallback else v)"

fun contains :: "string list \<Rightarrow> string \<Rightarrow> bool" where
  "contains [] item = False"
| "contains (s # slice) item = (if s = item then True else contains slice item)"

definition getDefaultAllowedOrigins :: "string \<Rightarrow> string" where
  "getDefaultAllowedOrigins env =
     (if env = ''production'' then ''https://your-production-domain.com''
      else if env = ''staging'' then ''https://staging.your-domain.com''
      else ''http://localhost:5173,http://127.0.0.1:5173'')"

definition detectConfigMode :: "environ \<Rightarrow> ConfigMode" where
  "detectConfigMode env =
     (if GetEnv env ''GOOGLE_CLOUD_PROJECT'' [] \<noteq> [] then ModeSecretManager
      else if GetEnv env ''USE_SECRET_MANAGER'' [] = ''true'' then ModeSecretManager
      else ModeBasic)"

definition loadBasicConfig :: "environ \<Rightarrow> AppConfig \<Rightarrow> error + AppConfig" where
  "loadBasicConfig env config =
     (let config = config\<lparr>MongoURI := GetEnv env ''MONGO_URI'' []\<rparr>;
          config = config\<lparr>DBName := GetEnv env ''DB_NAME'' ''mrexperiences_service''\<rparr>;
          config = config\<lparr>JWTSecret := GetEnv env ''JWT_SECRET'' []\<rparr>;
          config = config\<lparr>NATSURL := GetEnv env ''NATS_URL'' []\<rparr>;
          config = config\<lparr>AllowedOrigins := getDefaultAllowedOrigins (AppEnv config)\<rparr>;
          envOrigins = GetEnv env ''ALLOWED_ORIGINS'' [];
          config = (if envOrigins \<noteq> [] then config\<lparr>AllowedOrigins := envOrigins\<rparr>
                    else config)
      in Inr config)"

definition fetchSecretFromManager :: "world \<Rightarrow> string \<Rightarrow> string \<Rightarrow> error + string" where
  "fetchSecretFromManager w projectID secretName = fetchSecret w projectID secretName"

definition getSecretOrEnv ::
  "world \<Rightarrow> environ \<Rightarrow> string \<Rightarrow> string \<Rightarrow> string \<Rightarrow> string \<Rightarrow> bool \<Rightarrow> error + string" where
  "getSecretOrEnv w env projectID secretKey envKey fallback allowFallback =
     (case fetchSecretFromManager w projectID secretKey of
        Inr v \<Rightarrow> Inr v
      | Inl err \<Rightarrow>
          if \<not> allowFallback then Inl err
          else (let envValue = GetEnv env envKey fallback
                in if envValue = [] then Inl (BothEmpty secretKey envKey)
                   else Inr envValue))"

definition secretMap :: "(string \<times> string) list" where
  "secretMap =
     [(''mongo-uri'', ''MONGO_URI''),
      (''db-name'', ''DB_NAME''),
      (''jwt-secret'', ''JWT_SECRET''),
      (''nats-url'', ''NATS_URL'')]"

text \<open>The \<open>switch secretKey\<close> at the end of the loop body.\<close>

definition assignSecret :: "string \<Rightarrow> string \<Rightarrow> AppConfig \<Rightarrow> AppConfig" where
  "assignSecret secretKey v config =
     (if secretKey = ''mongo-uri'' then config\<lparr>MongoURI := v\<rparr>
      else if secretKey = ''db-name'' then
        (let config = config\<lparr>DBName := v\<rparr>
         in if DBName config = [] then config\<lparr>DBName := ''mrexperiences_service''\<rparr>
            else config)
      else if secretKey = ''jwt-secret'' then config\<lparr>JWTSecret := v\<rparr>
      else if secretKey = ''nats-url'' then config\<lparr>NATSURL := v\<rparr>
      else config)"

text \<open>
  The loop \<open>for secretKey, envKey := range secretMap\<close>, over the entries still to
  visit. A failing required secret returns from the whole function.
\<close>

fun loadSecretsLoop ::
  "world \<Rightarrow> environ \<Rightarrow> ConfigOptions \<Rightarrow> AppConfig \<Rightarrow> (string \<times> string) list
     \<Rightarrow> error + AppConfig" where
  "loadSecretsLoop w env options config [] = Inr config"
| "loadSecretsLoop w env options config ((secretKey, envKey) # rest) =
     (case getSecretOrEnv w env (ProjectID config) secretKey envKey []
             (FallbackToEnv options) of
        Inl err \<Rightarrow>
          if contains (RequiredSecrets options) secretKey
          then Inl (RequiredSecretFailed secretKey err)
          else loadSecretsLoop w env options (assignSecret secretKey [] config) rest
      | Inr v \<Rightarrow> loadSecretsLoop w env options (assignSecret secretKey v config) rest)"

definition loadSecretsFromManager ::
  "world \<Rightarrow> environ \<Rightarrow> AppConfig \<Rightarrow> ConfigOptions \<Rightarrow> error + AppConfig" where
  "loadSecretsFromManager w env config options =
     (if ProjectID config = [] then Inl ProjectIDRequired
      else
        (case loadSecretsLoop w env options config (rangeOrder w) of
           Inl err \<Rightarrow> Inl err
         | Inr config \<Rightarrow>
             (let config = config\<lparr>AllowedOrigins := getDefaultAllowedOrigins (AppEnv config)\<rparr>;
                  envOrigins = GetEnv env ''ALLOWED_ORIGINS'' [];
                  config = (if envOrigins \<noteq> [] then config\<lparr>AllowedOrigins := envOrigins\<rparr>
                            else config)
              in Inr config)))"

text \<open>
  The closure passed to \<open>once.Do\<close>: it builds the configuration and returns it with
  the environment as \<open>godotenv.Load\<close> left it, or the error that \<open>log.Fatalf\<close>
  reports.
\<close>

definition loadOnce :: "world \<Rightarrow> environ \<Rightarrow> ConfigOptions \<Rightarrow> error + (AppConfig \<times> environ)" where
  "loadOnce w env options =
     (let config = \<lparr>Mode = optMode options,
                     AppEnv = GetEnv env ''APP_ENV'' ''development'',
                     ProjectID = [], MongoURI = [], DBName = [], JWTSecret = [],
                     NATSURL = [], AllowedOrigins = [],
                     Port = GetEnv env ''PORT'' ''8080'',
                     Version = ConfigVersion,
                     LoadTime = time_Now w\<rparr>;
          config = (if Mode config = ModeAuto then config\<lparr>Mode := detectConfigMode env\<rparr>
                    else config);
          env = (if AppEnv config = ''development'' then snd (godotenv_Load w env) else env);
          r = (if Mode config = ModeSecretManager then
                 (let config = config\<lparr>ProjectID := SecretManagerProject options\<rparr>;
                      config = (if ProjectID config = []
                                then config\<lparr>ProjectID := GetEnv env ''GOOGLE_CLOUD_PROJECT'' []\<rparr>
                                else config)
                  in loadSecretsFromManager w env config options)
               else if Mode config = ModeBasic then loadBasicConfig env config
               else Inl (UnsupportedConfigMode (Mode config)))
      in case r of Inl err \<Rightarrow> Inl err | Inr config \<Rightarrow> Inr (config, env))"

definition LoadEnvWithOptions :: "world \<Rightarrow> ConfigOptions \<Rightarrow> pkg_state \<Rightarrow> abort + pkg_state" where
  "LoadEnvWithOptions w options s =
     (if onceDone s then Inr s
      else
        (case loadOnce w (environ s) options of
           Inl err \<Rightarrow> Inl (FailedToLoadConfiguration err)
         | Inr (config, env) \<Rightarrow>
             Inr (s\<lparr>Config := Some config, onceDone := True, environ := env\<rparr>)))"

definition LoadEnv :: "world \<Rightarrow> pkg_state \<Rightarrow> abort + pkg_state" where
  "LoadEnv w s =
     LoadEnvWithOptions w
       \<lparr>optMode = ModeAuto, EnableSecretManager = False, SecretManagerProject = [],
        RequiredSecrets = [], OptionalSecrets = [], FallbackToEnv = True\<rparr> s"

definition LoadEnvWithSecretManager ::
  "world \<Rightarrow> string \<Rightarrow> string list \<Rightarrow> pkg_state \<Rightarrow> abort + pkg_state" where
  "LoadEnvWithSecretManager w projectID requiredSecrets s =
     LoadEnvWithOptions w
       \<lparr>optMode = ModeSecretManager, EnableSecretManager = True,
        SecretManagerProject = projectID, RequiredSecrets = requiredSecrets,
        OptionalSecrets = [], FallbackToEnv = True\<rparr> s"

text \<open>The accessors. Each takes the read lock, tests \<open>Config == nil\<close>, and reads.\<close>

definition GetMongoURI :: "pkg_state \<Rightarrow> abort + string" where
  "GetMongoURI s = (case Config s of None \<Rightarrow> Inl ConfigurationNotLoaded | Some c \<Rightarrow> Inr (MongoURI c))"

definition GetDBName :: "pkg_state \<Rightarrow> abort + string" where
  "GetDBName s = (case Config s of None \<Rightarrow> Inl ConfigurationNotLoaded | Some c \<Rightarrow> Inr (DBName c))"

definition GetJWTSecret :: "pkg_state \<Rightarrow> abort + string" where
  "GetJWTSecret s = (case Config s of None \<Rightarrow> Inl ConfigurationNotLoaded | Some c \<Rightarrow> Inr (JWTSecret c))"

definition GetNATSURL :: "pkg_state \<Rightarrow> abort + string" where
  "GetNATSURL s = (case Config s of None \<Rightarrow> Inl ConfigurationNotLoaded | Some c \<Rightarrow> Inr (NATSURL c))"

definition GetAllowedOrigins :: "pkg_state \<Rightarrow> abort + string" where
  "GetAllowedOrigins s =
     (case Config s of None \<Rightarrow> Inl ConfigurationNotLoaded | Some c \<Rightarrow> Inr (AllowedOrigins c))"

definition GetPort :: "pkg_state \<Rightarrow> abort + string" where
  "GetPort s = (case Config s of None \<Rightarrow> Inl ConfigurationNotLoaded | Some c \<Rightarrow> Inr (Port c))"

definition GetAppEnv :: "pkg_state \<Rightarrow> abort + string" where
  "GetAppEnv s = (case Config s of None \<Rightarrow> Inl ConfigurationNotLoaded | Some c \<Rightarrow> Inr (AppEnv c))"

definition GetConfig :: "pkg_state \<Rightarrow> abort + AppConfig" where
  "GetConfig s = (case Config s of None \<Rightarrow> Inl ConfigurationNotLoaded | Some c \<Rightarrow> Inr c)"

definition GetConfigMode :: "pkg_state \<Rightarrow> abort + ConfigMode" where
  "GetConfigMode s = (case Config s of None \<Rightarrow> Inr ModeBasic | Some c \<Rightarrow> Inr (Mode c))"

definition IsSecretManagerEnabled :: "pkg_state \<Rightarrow> abort + bool" where
  "IsSecretManagerEnabled s =
     (case GetConfigMode s of Inl a \<Rightarrow> Inl a | Inr m \<Rightarrow> Inr (m = ModeSecretManager))"

section \<open>Package config: database.go\<close>

text \<open>
  \<open>GetCollection\<close> of the current revision: it aborts when \<open>DB\<close> is \<open>nil\<close>, and
  reads the database name through \<open>GetDBName\<close>, which aborts before loading.
\<close>

definition GetCollection :: "pkg_state \<Rightarrow> string \<Rightarrow> abort + mongo_Collection" where
  "GetCollection s collectionName =
     (case DB s of
        None \<Rightarrow> Inl DatabaseNotConnected
      | Some client \<Rightarrow>
          (case GetDBName s of
             Inl a \<Rightarrow> Inl a
           | Inr dbName \<Rightarrow>
               Inr \<lparr>collClient = client, collDatabase = dbName, collName = collectionName\<rparr>))"

section \<open>Package utils: logging.go\<close>

text \<open>
  \<open>LogAudit\<close> returns nothing. What it does is visible in the document it hands to
  \<open>InsertOne\<close> and in the lines it writes with \<open>println\<close>; the model returns both,
  or the abort of \<open>GetCollection\<close>.
\<close>

record audit_effects =
  submitted :: AuditLog
  printed :: "string list"

definition LogAudit :: "world \<Rightarrow> pkg_state \<Rightarrow> string \<Rightarrow> string \<Rightarrow> string \<Rightarrow> abort + audit_effects" where
  "LogAudit w s adminID action targetID =
     (case GetCollection s ''oms_audit_logs'' of
        Inl a \<Rightarrow> Inl a
      | Inr collection \<Rightarrow>
          (let log = \<lparr>ID = NewObjectID w, AdminID = adminID, Action = action,
                        TargetID = targetID, Timestamp = time_Now w\<rparr>
           in case InsertOne w collection log of
                Some err \<Rightarrow>
                  Inr \<lparr>submitted = log, printed = [''Failed to log audit: '' @ Error err]\<rparr>
              | None \<Rightarrow> Inr \<lparr>submitted = log, printed = []\<rparr>))"

section \<open>Package utils: jwt.go\<close>

definition accessTokenClaims :: "string \<Rightarrow> string \<Rightarrow> string \<Rightarrow> int \<Rightarrow> MapClaims" where
  "accessTokenClaims userID organizationID role now =
     [''user_id'' \<mapsto> JString userID,
      ''organization_id'' \<mapsto> JString organizationID,
      ''role'' \<mapsto> JString role,
      ''type'' \<mapsto> JString ''access'',
      ''exp'' \<mapsto> JNumber (now + 3600),
      ''iat'' \<mapsto> JNumber now]"

definition refreshTokenClaims :: "string \<Rightarrow> int \<Rightarrow> MapClaims" where
  "refreshTokenClaims userID now =
     [''user_id'' \<mapsto> JString userID,
      ''type'' \<mapsto> JString ''refresh'',
      ''exp'' \<mapsto> JNumber (now + 3600 * 24 * 7)]"

definition GenerateTokenPair ::
  "world \<Rightarrow> environ \<Rightarrow> string \<Rightarrow> string \<Rightarrow> string \<Rightarrow> error + (string \<times> string)" where
  "GenerateTokenPair w env userID organizationID role =
     (case jwt_SignedString w (accessTokenClaims userID organizationID role (time_Now w))
             (os_Getenv env ''JWT_SECRET'') of
        Inl err \<Rightarrow> Inl err
      | Inr accessTokenString \<Rightarrow>
          (case jwt_SignedString w (refreshTokenClaims userID (time_Now w))
                  (os_Getenv env ''JWT_SECRET'') of
             Inl err \<Rightarrow> Inl err
           | Inr refreshTokenString \<Rightarrow> Inr (accessTokenString, refreshTokenString)))"


section \<open>Package middleware\<close>

text \<open>
  The part of a \<open>fiber.Ctx\<close> the middleware touches: the request headers and the
  per-request \<open>Locals\<close>. \<open>reqHeaders\<close> is the header table as the server keeps it,
  keyed by the normalised header name (\<open>Authorization\<close>, however the client wrote
  it); \<open>c.Get\<close> normalises the name it is given in the same way, so a lookup under the
  normalised name is the case-insensitive lookup of the framework. A handler ends in
  one of three ways: it writes a JSON response with a status, it passes the request on
  with \<open>c.Next()\<close>, or it panics with a message.
\<close>

record fiber_Ctx =
  reqHeaders :: "string \<rightharpoonup> string"
  Locals :: "string \<rightharpoonup> json_value"

datatype outcome =
    Response nat "(string \<times> string) list"
  | Next fiber_Ctx
  | Panic string

definition StatusUnauthorized :: nat where
  "StatusUnauthorized = 401"

definition ctx_Get :: "fiber_Ctx \<Rightarrow> string \<Rightarrow> string" where
  "ctx_Get c key = (case reqHeaders c key of None \<Rightarrow> [] | Some v \<Rightarrow> v)"

text \<open>
  The dynamic type of an \<open>interface{}\<close> read from the claims, as the runtime names it:
  an absent key and \<open>null\<close> read as \<open>nil\<close>, a JSON number decodes to \<open>float64\<close>.
\<close>

fun goTypeName :: "json_value option \<Rightarrow> string" where
  "goTypeName None = ''nil''"
| "goTypeName (Some JNull) = ''nil''"
| "goTypeName (Some (JBool b)) = ''bool''"
| "goTypeName (Some (JNumber n)) = ''float64''"
| "goTypeName (Some (JString v)) = ''string''"
| "goTypeName (Some (JArray vs)) = ''[]interface {}''"
| "goTypeName (Some (JObject kvs)) = ''map[string]interface {}''"

text \<open>
  The one-result type assertion \<open>claims[key].(string)\<close>: it yields the string, or
  panics with the runtime's \<open>TypeAssertionError\<close> when the value is \<open>nil\<close> or of
  another type.
\<close>

definition assertString :: "MapClaims \<Rightarrow> string \<Rightarrow> string + string" where
  "assertString claims key =
     (case claims key of
        Some (JString v) \<Rightarrow> Inr v
      | _ \<Rightarrow> Inl (''interface conversion: interface {} is '' @ goTypeName (claims key)
                  @ '', not string''))"

text \<open>The file holds two revisions of \<open>AuthMiddleware\<close>; the first does not read the role.\<close>

definition AuthMiddleware_v1 :: "world \<Rightarrow> environ \<Rightarrow> fiber_Ctx \<Rightarrow> outcome" where
  "AuthMiddleware_v1 w env c =
     (let tokenString = ctx_Get c ''Authorization''
      in if tokenString = [] then Response StatusUnauthorized [(''error'', ''Unauthorized'')]
         else
           (case jwt_ParseWithClaims w tokenString (os_Getenv env ''JWT_SECRET'') of
              (claims, Some err) \<Rightarrow> Response StatusUnauthorized [(''error'', ''Invalid token'')]
            | (claims, None) \<Rightarrow>
                (case assertString claims ''user_id'' of
                   Inl p \<Rightarrow> Panic p
                 | Inr userID \<Rightarrow>
                     (case assertString claims ''organization_id'' of
                        Inl p \<Rightarrow> Panic p
                      | Inr organizationID \<Rightarrow>
                          Next (c\<lparr>Locals := (Locals c)
                                  (''user_id'' \<mapsto> JString userID,
                                   ''organization_id'' \<mapsto> JString organizationID)\<rparr>)))))"

definition AuthMiddleware :: "world \<Rightarrow> environ \<Rightarrow> fiber_Ctx \<Rightarrow> outcome" where
  "AuthMiddleware w env c =
     (let tokenString = ctx_Get c ''Authorization''
      in if tokenString = [] then Response StatusUnauthorized [(''error'', ''Unauthorized'')]
         else
           (case jwt_ParseWithClaims w tokenString (os_Getenv env ''JWT_SECRET'') of
              (claims, Some err) \<Rightarrow> Response StatusUnauthorized [(''error'', ''Invalid token'')]
            | (claims, None) \<Rightarrow>
                (case assertString claims ''user_id'' of
                   Inl p \<Rightarrow> Panic p
                 | Inr userID \<Rightarrow>
                     (case assertString claims ''organization_id'' of
                        Inl p \<Rightarrow> Panic p
                      | Inr organizationID \<Rightarrow>
                          (let role = (case claims ''role'' of
                                         Some (JString r) \<Rightarrow> r
                                       | _ \<Rightarrow> [])
                           in Next (c\<lparr>Locals := (Locals c)
                                     (''user_id'' \<mapsto> JString userID,
                                      ''organization_id'' \<mapsto> JString organizationID,
                                      ''role'' \<mapsto> JString role)\<rparr>))))))"

section \<open>Notions used to state the properties\<close>

text \<open>
  The package state when the process starts, in a given environment: nothing loaded,
  \<open>once\<close> unused, no database client.
\<close>

definition init_state :: "environ \<Rightarrow> pkg_state" where
  "init_state env = \<lparr>Config = None, onceDone = False, environ = env, DB = None\<rparr>"

text \<open>The options \<open>LoadEnv\<close> passes.\<close>

definition default_options :: ConfigOptions where
  "default_options =
     \<lparr>optMode = ModeAuto, EnableSecretManager = False, SecretManagerProject = [],
      RequiredSecrets = [], OptionalSecrets = [], FallbackToEnv = True\<rparr>"

text \<open>
  A concrete world on which the model is evaluated: the \<open>nosecretmanager\<close> build, whose
  \<open>getSecretFromGoogleSecretManager\<close> fails for every secret; no \<open>.env\<close> file; a
  document store that refuses every insert; and a token library that verifies a few
  token strings under the key \<open>k\<close>, rejects everything else, and cannot sign.
\<close>

definition example_world :: world where
  "example_world =
     \<lparr>fetchSecret = (\<lambda>projectID secretName. Inl (ExternalError
         ''Secret Manager not available - build with Secret Manager support or use basic mode'')),
      godotenv_Load = (\<lambda>env. (Some (ExternalError ''open .env: no such file or directory''), env)),
      time_Now = 0,
      rangeOrder = secretMap,
      NewObjectID = 1,
      InsertOne = (\<lambda>collection document. Some (ExternalError ''context deadline exceeded'')),
      jwt_Parse = (\<lambda>tokenString key.
         if key = ''k'' \<and> tokenString = ''refresh-token''
         then Inr \<lparr>Claims = IsMapClaims (refreshTokenClaims ''u1'' 0), Valid = True\<rparr>
         else if key = ''k'' \<and> tokenString = ''access-token''
         then Inr \<lparr>Claims = IsMapClaims (accessTokenClaims ''u1'' ''org1'' ''admin'' 0),
                    Valid = True\<rparr>
         else Inl (ExternalError ''signature is invalid'')),
      jwt_ParseWithClaims = (\<lambda>tokenString key.
         if key = ''k'' \<and> tokenString = ''access-token''
         then (accessTokenClaims ''u1'' ''org1'' ''admin'' 0, None)
         else if key = ''k'' \<and> tokenString = ''refresh-token''
         then (refreshTokenClaims ''u1'' 0, None)
         else if key = ''k'' \<and> tokenString = ''numeric-id-token''
         then ([''user_id'' \<mapsto> JNumber 7, ''organization_id'' \<mapsto> JString ''org1''], None)
         else (Map.empty, Some (ExternalError ''signature is invalid''))),
      jwt_SignedString = (\<lambda>claims key. Inl (ExternalError ''key is invalid''))\<rparr>"

text \<open>
  A second world, in which the secret store works: it holds \<open>jwt-secret\<close> for the
  project \<open>proj\<close> and nothing else. Its token library knows one refresh token signed
  with the empty key, one refresh token signed with the stored secret, and one token
  signed with the key \<open>k\<close> that has expired: for the last it fills the claims and
  reports the expiry.
\<close>

definition store_world :: world where
  "store_world =
     \<lparr>fetchSecret = (\<lambda>projectID secretName.
         if projectID = ''proj'' \<and> secretName = ''jwt-secret'' then Inr ''s3cret''
         else Inl (ExternalError (''failed to access secret '' @ secretName))),
      godotenv_Load = (\<lambda>env. (Some (ExternalError ''open .env: no such file or directory''), env)),
      time_Now = 0,
      rangeOrder = secretMap,
      NewObjectID = 1,
      InsertOne = (\<lambda>collection document. None),
      jwt_Parse = (\<lambda>tokenString key.
         if key = [] \<and> tokenString = ''token-signed-with-empty-key''
         then Inr \<lparr>Claims = IsMapClaims (refreshTokenClaims ''u1'' 0), Valid = True\<rparr>
         else if key = ''s3cret'' \<and> tokenString = ''token-signed-with-s3cret''
         then Inr \<lparr>Claims = IsMapClaims (refreshTokenClaims ''u1'' 0), Valid = True\<rparr>
         else Inl (ExternalError ''signature is invalid'')),
      jwt_ParseWithClaims = (\<lambda>tokenString key.
         if key = ''s3cret'' \<and> tokenString = ''token-signed-with-s3cret''
         then (refreshTokenClaims ''u1'' 0, None)
         else if key = [] \<and> tokenString = ''token-signed-with-empty-key''
         then (refreshTokenClaims ''u1'' 0, None)
         else if key = ''k'' \<and> tokenString = ''expired-token''
         then (refreshTokenClaims ''u1'' (- 700000), Some (ExternalError ''token is expired''))
         else (Map.empty, Some (ExternalError ''signature is invalid''))),
      jwt_SignedString = (\<lambda>claims key. Inl (ExternalError ''key is invalid''))\<rparr>"

text \<open>
  A secret is unresolved when the store fails for it and, if falling back to the
  environment is allowed, its environment variable reads empty.
\<close>

definition unresolved ::
  "world \<Rightarrow> environ \<Rightarrow> ConfigOptions \<Rightarrow> string \<Rightarrow> string \<Rightarrow> string \<Rightarrow> bool" where
  "unresolved w env options projectID secretKey envKey =
     (isl (fetchSecret w projectID secretKey)
      \<and> (if FallbackToEnv options then os_Getenv env envKey = [] else True))"

text \<open>Some secret of \<open>secretMap\<close> is unresolved and listed in \<open>RequiredSecrets\<close>.\<close>

definition requiredUnresolved :: "world \<Rightarrow> environ \<Rightarrow> ConfigOptions \<Rightarrow> string \<Rightarrow> bool" where
  "requiredUnresolved w env options projectID =
     list_ex (\<lambda>(secretKey, envKey).
        unresolved w env options projectID secretKey envKey
        \<and> secretKey \<in> set (RequiredSecrets options)) secretMap"

text \<open>The value the loop assigns for a secret: what was resolved, or the empty string.\<close>

definition secretValue ::
  "world \<Rightarrow> environ \<Rightarrow> ConfigOptions \<Rightarrow> string \<Rightarrow> string \<Rightarrow> string \<Rightarrow> string" where
  "secretValue w env options projectID secretKey envKey =
     (case getSecretOrEnv w env projectID secretKey envKey [] (FallbackToEnv options) of
        Inl err \<Rightarrow> []
      | Inr v \<Rightarrow> v)"

definition dbNameOrDefault :: "string \<Rightarrow> string" where
  "dbNameOrDefault v = (if v = [] then ''mrexperiences_service'' else v)"

text \<open>
  Three quantities the closure of \<open>LoadEnvWithOptions\<close> computes on its way: the mode
  after auto-detection, the environment once \<open>godotenv.Load\<close> has run (in development
  only), and the project id handed to \<open>loadSecretsFromManager\<close>.
\<close>

definition effectiveMode :: "ConfigOptions \<Rightarrow> environ \<Rightarrow> ConfigMode" where
  "effectiveMode options env =
     (if optMode options = ModeAuto then detectConfigMode env else optMode options)"

definition loadingEnviron :: "world \<Rightarrow> environ \<Rightarrow> environ" where
  "loadingEnviron w env =
     (if GetEnv env ''APP_ENV'' ''development'' = ''development''
      then snd (godotenv_Load w env) else env)"

definition effectiveProjectID :: "ConfigOptions \<Rightarrow> environ \<Rightarrow> string" where
  "effectiveProjectID options env =
     (if SecretManagerProject options = [] then GetEnv env ''GOOGLE_CLOUD_PROJECT'' []
      else SecretManagerProject options)"

text \<open>The claim under a key is present and a string: the type assertion on it succeeds.\<close>

definition isStringClaim :: "MapClaims \<Rightarrow> string \<Rightarrow> bool" where
  "isStringClaim claims key = (case claims key of Some (JString v) \<Rightarrow> True | _ \<Rightarrow> False)"

text \<open>
  A state after loading and connecting, for evaluating the code that needs both.
\<close>

definition connected_state :: pkg_state where
  "connected_state =
     \<lparr>Config = Some \<lparr>Mode = ''basic'', AppEnv = ''production'', ProjectID = [],
                MongoURI = ''mongodb://db:27017'', DBName = ''mrexperiences_service'',
                JWTSecret = ''k'', NATSURL = [],
                AllowedOrigins = ''https://your-production-domain.com'',
                Port = ''8080'', Version = ''2.0.0'', LoadTime = 0\<rparr>,
      onceDone = True,
      environ = [''APP_ENV'' \<mapsto> ''production'', ''MONGO_URI'' \<mapsto> ''mongodb://db:27017'',
                 ''JWT_SECRET'' \<mapsto> ''k''],
      DB = Some (Client ''mongodb://db:27017'')\<rparr>"

section \<open>Basic facts about the loader\<close>

lemmas mode_defs = ModeAuto_def ModeBasic_def ModeSecretManager_def

lemmas eval_defs = LoadEnvWithOptions_def loadOnce_def loadBasicConfig_def
  loadSecretsFromManager_def getSecretOrEnv_def fetchSecretFromManager_def
  assignSecret_def secretMap_def detectConfigMode_def getDefaultAllowedOrigins_def
  GetEnv_def os_Getenv_def ConfigVersion_def mode_defs init_state_def example_world_def
  default_options_def Let_def

lemma GetEnv_empty: "GetEnv env key [] = os_Getenv env key"
  by (simp add: GetEnv_def Let_def)

lemma contains_set: "contains slice item = (item \<in> set slice)"
  by (induction slice) auto

lemma LoadEnvWithOptions_done: "onceDone s \<Longrightarrow> LoadEnvWithOptions w options s = Inr s"
  by (simp add: LoadEnvWithOptions_def)

lemma LoadEnvWithOptions_sets_once:
  "LoadEnvWithOptions w options s = Inr s' \<Longrightarrow> onceDone s'"
  by (auto simp: LoadEnvWithOptions_def split: if_splits sum.splits prod.splits)

lemma detect_never_auto: "detectConfigMode env \<noteq> ModeAuto"
  by (simp add: detectConfigMode_def mode_defs)

lemma detectConfigMode_eq:
  "detectConfigMode env =
     (if os_Getenv env ''GOOGLE_CLOUD_PROJECT'' \<noteq> [] \<or> os_Getenv env ''USE_SECRET_MANAGER'' = ''true''
      then ModeSecretManager else ModeBasic)"
  by (simp add: detectConfigMode_def GetEnv_empty)

lemma loadBasicConfig_keeps:
  "loadBasicConfig env c = Inr c' \<Longrightarrow> Mode c' = Mode c \<and> AppEnv c' = AppEnv c"
  by (auto simp: loadBasicConfig_def Let_def split: if_splits)

lemma assignSecret_keeps:
  "Mode (assignSecret k v c) = Mode c"
  "AppEnv (assignSecret k v c) = AppEnv c"
  "ProjectID (assignSecret k v c) = ProjectID c"
  by (simp_all add: assignSecret_def Let_def)

lemma loadSecretsLoop_keeps:
  "loadSecretsLoop w env options c entries = Inr c' \<Longrightarrow>
     Mode c' = Mode c \<and> AppEnv c' = AppEnv c \<and> ProjectID c' = ProjectID c"
proof (induction entries arbitrary: c)
  case Nil
  then show ?case by simp
next
  case (Cons x entries)
  obtain k e where x: "x = (k, e)" by (cases x)
  from Cons.prems show ?case
    unfolding x
    by (auto simp: assignSecret_keeps split: sum.splits if_splits dest!: Cons.IH)
qed

lemma loadSecretsFromManager_keeps:
  "loadSecretsFromManager w env c options = Inr c' \<Longrightarrow>
     Mode c' = Mode c \<and> AppEnv c' = AppEnv c \<and> ProjectID c' = ProjectID c"
  by (auto simp: loadSecretsFromManager_def Let_def split: if_splits sum.splits
      dest!: loadSecretsLoop_keeps)

lemma loadOnce_Mode:
  "loadOnce w env options = Inr (c, env') \<Longrightarrow> Mode c = effectiveMode options env"
  by (auto simp: loadOnce_def effectiveMode_def Let_def split: if_splits sum.splits
      dest!: loadSecretsFromManager_keeps loadBasicConfig_keeps)

lemma loadOnce_environ:
  "loadOnce w env options = Inr (c, env') \<Longrightarrow> env' = loadingEnviron w env"
  by (auto simp: loadOnce_def loadingEnviron_def Let_def split: if_splits sum.splits
      dest!: loadSecretsFromManager_keeps loadBasicConfig_keeps)

lemma loadSecretsLoop_optMode:
  "loadSecretsLoop w env (options\<lparr>optMode := m\<rparr>) c entries =
     loadSecretsLoop w env options c entries"
proof (induction entries arbitrary: c)
  case Nil
  show ?case by simp
next
  case (Cons x entries)
  obtain k e where x: "x = (k, e)" by (cases x)
  show ?case unfolding x by (simp add: Cons.IH split: sum.splits)
qed

lemma loadSecretsFromManager_optMode:
  "loadSecretsFromManager w env c (options\<lparr>optMode := m\<rparr>) =
     loadSecretsFromManager w env c options"
  by (simp add: loadSecretsFromManager_def loadSecretsLoop_optMode)

lemma loadOnce_auto:
  "optMode options = ModeAuto \<Longrightarrow>
     loadOnce w env options = loadOnce w env (options\<lparr>optMode := detectConfigMode env\<rparr>)"
  using detect_never_auto [of env]
  by (simp add: loadOnce_def Let_def loadSecretsFromManager_optMode)

section \<open>Loading is one-shot\<close>

text \<open>
  C2. Once a call of \<open>LoadEnvWithOptions\<close> (so also of \<open>LoadEnv\<close>, which is such a call)
  has returned, every later call of \<open>LoadEnvWithOptions\<close>, \<open>LoadEnv\<close> or
  \<open>LoadEnvWithSecretManager\<close>, with any options and in any world, returns with the
  package state, and so \<open>Config\<close>, exactly as it was.
\<close>

theorem load_is_one_shot:
  "LoadEnvWithOptions w options s = Inr s' \<Longrightarrow>
     LoadEnvWithOptions w' options' s' = Inr s'
     \<and> LoadEnv w' s' = Inr s'
     \<and> LoadEnvWithSecretManager w' projectID requiredSecrets s' = Inr s'"
  by (simp add: LoadEnvWithOptions_sets_once LoadEnvWithOptions_done LoadEnv_def
      LoadEnvWithSecretManager_def)

text \<open>
  A first load in the example world with no variables set gives the basic development
  configuration. A second load that asks for secret-manager mode with a required
  secret, which would abort if it ran, changes nothing.
\<close>

theorem load_is_one_shot_witness:
  "LoadEnvWithOptions example_world default_options (init_state Map.empty) =
     Inr \<lparr>Config = Some \<lparr>Mode = ''basic'', AppEnv = ''development'', ProjectID = [],
            MongoURI = [], DBName = ''mrexperiences_service'',
            JWTSecret = [], NATSURL = [],
            AllowedOrigins = ''http://localhost:5173,http://127.0.0.1:5173'',
            Port = ''8080'', Version = ''2.0.0'', LoadTime = 0\<rparr>,
          onceDone = True, environ = Map.empty, DB = None\<rparr>
   \<and> LoadEnvWithSecretManager example_world ''proj'' [''jwt-secret'']
       \<lparr>Config = Some \<lparr>Mode = ''basic'', AppEnv = ''development'', ProjectID = [],
            MongoURI = [], DBName = ''mrexperiences_service'',
            JWTSecret = [], NATSURL = [],
            AllowedOrigins = ''http://localhost:5173,http://127.0.0.1:5173'',
            Port = ''8080'', Version = ''2.0.0'', LoadTime = 0\<rparr>,
          onceDone = True, environ = Map.empty, DB = None\<rparr> =
     Inr \<lparr>Config = Some \<lparr>Mode = ''basic'', AppEnv = ''development'', ProjectID = [],
            MongoURI = [], DBName = ''mrexperiences_service'',
            JWTSecret = [], NATSURL = [],
            AllowedOrigins = ''http://localhost:5173,http://127.0.0.1:5173'',
            Port = ''8080'', Version = ''2.0.0'', LoadTime = 0\<rparr>,
          onceDone = True, environ = Map.empty, DB = None\<rparr>"
proof -
  have first: "LoadEnvWithOptions example_world default_options (init_state Map.empty) =
     Inr \<lparr>Config = Some \<lparr>Mode = ''basic'', AppEnv = ''development'', ProjectID = [],
            MongoURI = [], DBName = ''mrexperiences_service'',
            JWTSecret = [], NATSURL = [],
            AllowedOrigins = ''http://localhost:5173,http://127.0.0.1:5173'',
            Port = ''8080'', Version = ''2.0.0'', LoadTime = 0\<rparr>,
          onceDone = True, environ = Map.empty, DB = None\<rparr>"
    by (simp add: eval_defs)
  from load_is_one_shot [OF first] first show ?thesis by simp
qed

section \<open>Auto-detection of the mode\<close>

text \<open>
  C3. When \<open>LoadEnvWithOptions\<close> is called with mode \<open>auto\<close>, the mode it detects is
  secret-manager if \<open>GOOGLE_CLOUD_PROJECT\<close> is non-empty or \<open>USE_SECRET_MANAGER\<close> is
  \<open>true\<close>, and basic otherwise; the call behaves as the call with that mode given
  explicitly, and the configuration a first successful load stores carries that mode.
\<close>

theorem auto_mode_is_detected:
  assumes "optMode options = ModeAuto"
    and "m = (if os_Getenv (environ s) ''GOOGLE_CLOUD_PROJECT'' \<noteq> []
                 \<or> os_Getenv (environ s) ''USE_SECRET_MANAGER'' = ''true''
              then ModeSecretManager else ModeBasic)"
  shows "detectConfigMode (environ s) = m
     \<and> LoadEnvWithOptions w options s = LoadEnvWithOptions w (options\<lparr>optMode := m\<rparr>) s
     \<and> (\<forall>s'. \<not> onceDone s \<and> LoadEnvWithOptions w options s = Inr s'
            \<longrightarrow> map_option Mode (Config s') = Some m)"
proof -
  have m: "detectConfigMode (environ s) = m"
    using assms(2) by (simp add: detectConfigMode_eq)
  have same: "LoadEnvWithOptions w options s = LoadEnvWithOptions w (options\<lparr>optMode := m\<rparr>) s"
    using loadOnce_auto [OF assms(1), of w "environ s"] m
    by (simp add: LoadEnvWithOptions_def)
  have mode: "map_option Mode (Config s') = Some m"
    if "\<not> onceDone s" and "LoadEnvWithOptions w options s = Inr s'" for s'
    using that assms(1) m
    by (auto simp: LoadEnvWithOptions_def effectiveMode_def
        split: sum.splits prod.splits dest!: loadOnce_Mode)
  from m same mode show ?thesis by blast
qed

text \<open>
  With \<open>USE_SECRET_MANAGER=true\<close> and a project id, the default options load in
  secret-manager mode; with \<open>USE_SECRET_MANAGER=yes\<close> alone they load in basic mode.
\<close>

theorem auto_mode_is_detected_witness:
  "map_option Mode (case LoadEnvWithOptions example_world
        (default_options\<lparr>SecretManagerProject := ''proj''\<rparr>)
        (init_state [''USE_SECRET_MANAGER'' \<mapsto> ''true'']) of
      Inl a \<Rightarrow> None | Inr s' \<Rightarrow> Config s') = Some ModeSecretManager
   \<and> map_option Mode (case LoadEnvWithOptions example_world default_options
        (init_state [''USE_SECRET_MANAGER'' \<mapsto> ''yes'']) of
      Inl a \<Rightarrow> None | Inr s' \<Rightarrow> Config s') = Some ModeBasic"
proof -
  let ?o1 = "default_options\<lparr>SecretManagerProject := ''proj''\<rparr>"
  let ?s1 = "init_state [''USE_SECRET_MANAGER'' \<mapsto> ''true'']"
  let ?s2 = "init_state [''USE_SECRET_MANAGER'' \<mapsto> ''yes'']"
  have a1: "optMode ?o1 = ModeAuto" and a2: "optMode default_options = ModeAuto"
    by (simp_all add: default_options_def)
  have m1: "ModeSecretManager = (if os_Getenv (environ ?s1) ''GOOGLE_CLOUD_PROJECT'' \<noteq> []
                 \<or> os_Getenv (environ ?s1) ''USE_SECRET_MANAGER'' = ''true''
              then ModeSecretManager else ModeBasic)"
    by (simp add: init_state_def os_Getenv_def)
  have m2: "ModeBasic = (if os_Getenv (environ ?s2) ''GOOGLE_CLOUD_PROJECT'' \<noteq> []
                 \<or> os_Getenv (environ ?s2) ''USE_SECRET_MANAGER'' = ''true''
              then ModeSecretManager else ModeBasic)"
    by (simp add: init_state_def os_Getenv_def)
  have r1: "\<exists>s'. LoadEnvWithOptions example_world ?o1 ?s1 = Inr s'"
    by (simp add: eval_defs)
  have r2: "\<exists>s'. LoadEnvWithOptions example_world default_options ?s2 = Inr s'"
    by (simp add: eval_defs)
  have n1: "\<not> onceDone ?s1" and n2: "\<not> onceDone ?s2"
    by (simp_all add: init_state_def)
  from auto_mode_is_detected [OF a1 m1, of example_world] r1 n1
       auto_mode_is_detected [OF a2 m2, of example_world] r2 n2
  show ?thesis by auto
qed

section \<open>Allowed origins in basic mode\<close>

lemma loadBasicConfig_origins:
  "\<exists>c'. loadBasicConfig env config = Inr c'
      \<and> AppEnv c' = AppEnv config
      \<and> AllowedOrigins c' =
          (if os_Getenv env ''ALLOWED_ORIGINS'' \<noteq> [] then os_Getenv env ''ALLOWED_ORIGINS''
           else if AppEnv config = ''production'' then ''https://your-production-domain.com''
           else if AppEnv config = ''staging'' then ''https://staging.your-domain.com''
           else ''http://localhost:5173,http://127.0.0.1:5173'')"
  by (simp add: loadBasicConfig_def Let_def GetEnv_empty getDefaultAllowedOrigins_def)

lemma loadOnce_basic_mode:
  assumes "effectiveMode options env = ModeBasic"
  shows "\<exists>c0. AppEnv c0 = GetEnv env ''APP_ENV'' ''development''
     \<and> Mode c0 = ModeBasic
     \<and> loadOnce w env options =
         (case loadBasicConfig (loadingEnviron w env) c0 of
            Inl err \<Rightarrow> Inl err
          | Inr c \<Rightarrow> Inr (c, loadingEnviron w env))"
proof -
  let ?base = "\<lparr>Mode = ModeBasic,
                 AppEnv = GetEnv env ''APP_ENV'' ''development'',
                 ProjectID = [], MongoURI = [], DBName = [], JWTSecret = [],
                 NATSURL = [], AllowedOrigins = [],
                 Port = GetEnv env ''PORT'' ''8080'',
                 Version = ConfigVersion,
                 LoadTime = time_Now w\<rparr>"
  have "loadOnce w env options =
         (case loadBasicConfig (loadingEnviron w env) ?base of
            Inl err \<Rightarrow> Inl err
          | Inr c \<Rightarrow> Inr (c, loadingEnviron w env))"
    using assms
    by (auto simp: loadOnce_def effectiveMode_def loadingEnviron_def
        Let_def mode_defs split: if_splits sum.splits)
  moreover have "AppEnv ?base = GetEnv env ''APP_ENV'' ''development''" and "Mode ?base = ModeBasic"
    by simp_all
  ultimately show ?thesis by blast
qed

text \<open>
  C4. Take a first load whose mode, given or detected, is basic. Let \<open>appEnv\<close> be
  \<open>APP_ENV\<close> of the environment at the call (\<open>development\<close> when unset or empty) and
  \<open>env\<close> that environment once \<open>godotenv.Load\<close> has run, which it does in development
  only. The load succeeds and stores \<open>appEnv\<close> as \<open>AppEnv\<close>. With \<open>ALLOWED_ORIGINS\<close>
  unset or empty in \<open>env\<close>, \<open>AllowedOrigins\<close> is the production domain when \<open>appEnv\<close> is
  \<open>production\<close>, the staging domain when it is \<open>staging\<close>, and the localhost pair for
  every other value; a non-empty \<open>ALLOWED_ORIGINS\<close> is taken instead.
\<close>

theorem basic_mode_allowed_origins:
  assumes "\<not> onceDone s"
    and "effectiveMode options (environ s) = ModeBasic"
    and "appEnv = GetEnv (environ s) ''APP_ENV'' ''development''"
    and "env = loadingEnviron w (environ s)"
  shows "\<exists>s' c. LoadEnvWithOptions w options s = Inr s'
     \<and> Config s' = Some c
     \<and> environ s' = env
     \<and> Mode c = ModeBasic
     \<and> AppEnv c = appEnv
     \<and> AllowedOrigins c =
          (if os_Getenv env ''ALLOWED_ORIGINS'' \<noteq> [] then os_Getenv env ''ALLOWED_ORIGINS''
           else if appEnv = ''production'' then ''https://your-production-domain.com''
           else if appEnv = ''staging'' then ''https://staging.your-domain.com''
           else ''http://localhost:5173,http://127.0.0.1:5173'')"
proof -
  from loadOnce_basic_mode [OF assms(2), of w] assms(3,4)
  obtain c0 where app0: "AppEnv c0 = appEnv" and mode0: "Mode c0 = ModeBasic"
    and once: "loadOnce w (environ s) options =
         (case loadBasicConfig env c0 of
            Inl err \<Rightarrow> Inl err
          | Inr c \<Rightarrow> Inr (c, env))"
    by auto
  from loadBasicConfig_origins [of env c0] app0
  obtain c where run: "loadBasicConfig env c0 = Inr c"
    and app: "AppEnv c = appEnv"
    and origins: "AllowedOrigins c =
          (if os_Getenv env ''ALLOWED_ORIGINS'' \<noteq> [] then os_Getenv env ''ALLOWED_ORIGINS''
           else if appEnv = ''production'' then ''https://your-production-domain.com''
           else if appEnv = ''staging'' then ''https://staging.your-domain.com''
           else ''http://localhost:5173,http://127.0.0.1:5173'')"
    by auto
  from loadBasicConfig_keeps [OF run] mode0 have mode: "Mode c = ModeBasic" by simp
  have "LoadEnvWithOptions w options s =
      Inr (s\<lparr>Config := Some c, onceDone := True, environ := env\<rparr>)"
    using once run assms(1) by (simp add: LoadEnvWithOptions_def)
  moreover have "Config (s\<lparr>Config := Some c, onceDone := True, environ := env\<rparr>) = Some c"
    and "environ (s\<lparr>Config := Some c, onceDone := True, environ := env\<rparr>) = env"
    by simp_all
  ultimately show ?thesis using mode app origins by blast
qed

text \<open>
  In the example world: with \<open>APP_ENV=production\<close> and nothing else set, the explicit
  basic mode loads the production domain; with \<open>APP_ENV=staging\<close> and
  \<open>ALLOWED_ORIGINS=https://x.example\<close>, the default options detect the basic mode and
  load \<open>https://x.example\<close>.
\<close>

theorem basic_mode_allowed_origins_witness:
  "(\<exists>s' c. LoadEnvWithOptions example_world (default_options\<lparr>optMode := ModeBasic\<rparr>)
         (init_state [''APP_ENV'' \<mapsto> ''production'']) = Inr s'
       \<and> Config s' = Some c
       \<and> AppEnv c = ''production''
       \<and> AllowedOrigins c = ''https://your-production-domain.com'')
   \<and> (\<exists>s' c. LoadEnvWithOptions example_world default_options
         (init_state [''APP_ENV'' \<mapsto> ''staging'',
                      ''ALLOWED_ORIGINS'' \<mapsto> ''https://x.example'']) = Inr s'
       \<and> Config s' = Some c
       \<and> AppEnv c = ''staging''
       \<and> AllowedOrigins c = ''https://x.example'')"
proof -
  let ?e1 = "[''APP_ENV'' \<mapsto> ''production'']"
  let ?e2 = "[''APP_ENV'' \<mapsto> ''staging'', ''ALLOWED_ORIGINS'' \<mapsto> ''https://x.example'']"
  have a: "\<exists>s' c. LoadEnvWithOptions example_world (default_options\<lparr>optMode := ModeBasic\<rparr>)
         (init_state ?e1) = Inr s'
       \<and> Config s' = Some c
       \<and> environ s' = ?e1
       \<and> Mode c = ModeBasic
       \<and> AppEnv c = ''production''
       \<and> AllowedOrigins c =
          (if os_Getenv ?e1 ''ALLOWED_ORIGINS'' \<noteq> [] then os_Getenv ?e1 ''ALLOWED_ORIGINS''
           else if ''production'' = ''production'' then ''https://your-production-domain.com''
           else if ''production'' = ''staging'' then ''https://staging.your-domain.com''
           else ''http://localhost:5173,http://127.0.0.1:5173'')"
    by (rule basic_mode_allowed_origins)
       (simp_all add: init_state_def default_options_def effectiveMode_def loadingEnviron_def
          GetEnv_def os_Getenv_def mode_defs)
  have b: "\<exists>s' c. LoadEnvWithOptions example_world default_options (init_state ?e2) = Inr s'
       \<and> Config s' = Some c
       \<and> environ s' = ?e2
       \<and> Mode c = ModeBasic
       \<and> AppEnv c = ''staging''
       \<and> AllowedOrigins c =
          (if os_Getenv ?e2 ''ALLOWED_ORIGINS'' \<noteq> [] then os_Getenv ?e2 ''ALLOWED_ORIGINS''
           else if ''staging'' = ''production'' then ''https://your-production-domain.com''
           else if ''staging'' = ''staging'' then ''https://staging.your-domain.com''
           else ''http://localhost:5173,http://127.0.0.1:5173'')"
    by (rule basic_mode_allowed_origins)
       (simp_all add: init_state_def default_options_def effectiveMode_def loadingEnviron_def
          detectConfigMode_def GetEnv_def os_Getenv_def mode_defs)
  from a have a': "\<exists>s' c. LoadEnvWithOptions example_world
         (default_options\<lparr>optMode := ModeBasic\<rparr>) (init_state ?e1) = Inr s'
       \<and> Config s' = Some c
       \<and> AppEnv c = ''production''
       \<and> AllowedOrigins c = ''https://your-production-domain.com''"
    by (auto simp: os_Getenv_def)
  from b have b': "\<exists>s' c. LoadEnvWithOptions example_world default_options
         (init_state ?e2) = Inr s'
       \<and> Config s' = Some c
       \<and> AppEnv c = ''staging''
       \<and> AllowedOrigins c = ''https://x.example''"
    by (auto simp: os_Getenv_def)
  from a' b' show ?thesis by (rule conjI)
qed

section \<open>Accessors before loading\<close>

text \<open>
  C5, as the code has it. While \<open>Config\<close> is \<open>nil\<close>, the accessors \<open>GetMongoURI\<close>,
  \<open>GetDBName\<close>, \<open>GetJWTSecret\<close>, \<open>GetNATSURL\<close>, \<open>GetAllowedOrigins\<close>, \<open>GetPort\<close>,
  \<open>GetAppEnv\<close> and \<open>GetConfig\<close> abort the process; \<open>GetConfigMode\<close> returns the basic
  mode and \<open>IsSecretManagerEnabled\<close> returns false.
\<close>

theorem accessors_before_loading:
  "Config s = None \<Longrightarrow>
     GetMongoURI s = Inl ConfigurationNotLoaded
     \<and> GetDBName s = Inl ConfigurationNotLoaded
     \<and> GetJWTSecret s = Inl ConfigurationNotLoaded
     \<and> GetNATSURL s = Inl ConfigurationNotLoaded
     \<and> GetAllowedOrigins s = Inl ConfigurationNotLoaded
     \<and> GetPort s = Inl ConfigurationNotLoaded
     \<and> GetAppEnv s = Inl ConfigurationNotLoaded
     \<and> GetConfig s = Inl ConfigurationNotLoaded
     \<and> GetConfigMode s = Inr ModeBasic
     \<and> IsSecretManagerEnabled s = Inr False"
  by (simp add: GetMongoURI_def GetDBName_def GetJWTSecret_def GetNATSURL_def
      GetAllowedOrigins_def GetPort_def GetAppEnv_def GetConfig_def GetConfigMode_def
      IsSecretManagerEnabled_def mode_defs)

theorem accessors_before_loading_witness:
  "Config (init_state Map.empty) = None
   \<and> GetMongoURI (init_state Map.empty) = Inl ConfigurationNotLoaded
   \<and> GetConfig (init_state Map.empty) = Inl ConfigurationNotLoaded"
proof -
  have "Config (init_state Map.empty) = None" by (simp add: init_state_def)
  from accessors_before_loading [OF this] this show ?thesis by simp
qed

text \<open>
  C5 as stated fails: at process start, before any load, \<open>GetConfigMode\<close> and
  \<open>IsSecretManagerEnabled\<close> return a value.
\<close>

theorem accessors_before_loading_counterexample:
  "Config (init_state Map.empty) = None
   \<and> GetConfigMode (init_state Map.empty) = Inr ''basic''
   \<and> IsSecretManagerEnabled (init_state Map.empty) = Inr False"
  by (simp add: init_state_def GetConfigMode_def IsSecretManagerEnabled_def mode_defs)

section \<open>Secrets in secret-manager mode\<close>

lemma getSecretOrEnv_unresolved:
  "isl (getSecretOrEnv w env pid k e [] (FallbackToEnv options)) = unresolved w env options pid k e"
  by (auto simp: getSecretOrEnv_def fetchSecretFromManager_def unresolved_def GetEnv_empty
      Let_def split: sum.splits)

lemma secretValue_unresolved:
  "unresolved w env options pid k e \<Longrightarrow> secretValue w env options pid k e = []"
  using getSecretOrEnv_unresolved [of w env pid k e options]
  by (auto simp: secretValue_def split: sum.splits)

text \<open>One turn of the loop, in terms of \<open>unresolved\<close> and \<open>secretValue\<close>.\<close>

lemma loadSecretsLoop_step:
  "loadSecretsLoop w env options c ((k, e) # rest) =
     (if unresolved w env options (ProjectID c) k e \<and> k \<in> set (RequiredSecrets options)
      then Inl (RequiredSecretFailed k
             (projl (getSecretOrEnv w env (ProjectID c) k e [] (FallbackToEnv options))))
      else loadSecretsLoop w env options
             (assignSecret k (secretValue w env options (ProjectID c) k e) c) rest)"
  using getSecretOrEnv_unresolved [of w env "ProjectID c" k e options]
  by (auto simp: secretValue_def contains_set split: sum.splits)

lemma loadSecretsLoop_fails:
  "list_ex (\<lambda>(k, e). unresolved w env options (ProjectID c) k e
       \<and> k \<in> set (RequiredSecrets options)) entries \<Longrightarrow>
   \<exists>err. loadSecretsLoop w env options c entries = Inl err"
proof (induction entries arbitrary: c)
  case Nil
  then show ?case by simp
next
  case (Cons x entries)
  obtain k e where x: "x = (k, e)" by (cases x)
  show ?case
  proof (cases "unresolved w env options (ProjectID c) k e \<and> k \<in> set (RequiredSecrets options)")
    case True
    then show ?thesis unfolding x loadSecretsLoop_step by simp
  next
    case False
    with Cons.prems have
      "list_ex (\<lambda>(k, e). unresolved w env options (ProjectID c) k e
          \<and> k \<in> set (RequiredSecrets options)) entries"
      unfolding x by auto
    then have "\<exists>err. loadSecretsLoop w env options
        (assignSecret k (secretValue w env options (ProjectID c) k e) c) entries = Inl err"
      using Cons.IH [of "assignSecret k (secretValue w env options (ProjectID c) k e) c"]
      by (simp add: assignSecret_keeps)
    with False show ?thesis unfolding x loadSecretsLoop_step by simp
  qed
qed

text \<open>
  When no required secret is unresolved the loop runs to its end, and each field holds
  the value of its secret if the secret was visited.
\<close>

lemma loadSecretsLoop_succeeds:
  assumes "\<not> list_ex (\<lambda>(k, e). unresolved w env options (ProjectID c) k e
       \<and> k \<in> set (RequiredSecrets options)) entries"
    and "set entries \<subseteq> set secretMap"
  shows "\<exists>c'. loadSecretsLoop w env options c entries = Inr c'
     \<and> MongoURI c' = (if (''mongo-uri'', ''MONGO_URI'') \<in> set entries
          then secretValue w env options (ProjectID c) ''mongo-uri'' ''MONGO_URI''
          else MongoURI c)
     \<and> DBName c' = (if (''db-name'', ''DB_NAME'') \<in> set entries
          then dbNameOrDefault (secretValue w env options (ProjectID c) ''db-name'' ''DB_NAME'')
          else DBName c)
     \<and> JWTSecret c' = (if (''jwt-secret'', ''JWT_SECRET'') \<in> set entries
          then secretValue w env options (ProjectID c) ''jwt-secret'' ''JWT_SECRET''
          else JWTSecret c)
     \<and> NATSURL c' = (if (''nats-url'', ''NATS_URL'') \<in> set entries
          then secretValue w env options (ProjectID c) ''nats-url'' ''NATS_URL''
          else NATSURL c)"
  using assms
proof (induction entries arbitrary: c)
  case Nil
  then show ?case by simp
next
  case (Cons x entries)
  obtain k e where x: "x = (k, e)" by (cases x)
  let ?v = "secretValue w env options (ProjectID c) k e"
  let ?c1 = "assignSecret k ?v c"
  have pid: "ProjectID ?c1 = ProjectID c" by (simp add: assignSecret_keeps)
  from Cons.prems(1) have here: "\<not> (unresolved w env options (ProjectID c) k e
      \<and> k \<in> set (RequiredSecrets options))"
    and rest: "\<not> list_ex (\<lambda>(k, e). unresolved w env options (ProjectID ?c1) k e
       \<and> k \<in> set (RequiredSecrets options)) entries"
    unfolding x pid by auto
  from Cons.prems(2) have sub: "set entries \<subseteq> set secretMap" by simp
  from Cons.IH [OF rest sub] obtain c' where
    run: "loadSecretsLoop w env options ?c1 entries = Inr c'"
    and mongo: "MongoURI c' = (if (''mongo-uri'', ''MONGO_URI'') \<in> set entries
          then secretValue w env options (ProjectID c) ''mongo-uri'' ''MONGO_URI''
          else MongoURI ?c1)"
    and db: "DBName c' = (if (''db-name'', ''DB_NAME'') \<in> set entries
          then dbNameOrDefault (secretValue w env options (ProjectID c) ''db-name'' ''DB_NAME'')
          else DBName ?c1)"
    and jwt: "JWTSecret c' = (if (''jwt-secret'', ''JWT_SECRET'') \<in> set entries
          then secretValue w env options (ProjectID c) ''jwt-secret'' ''JWT_SECRET''
          else JWTSecret ?c1)"
    and nats: "NATSURL c' = (if (''nats-url'', ''NATS_URL'') \<in> set entries
          then secretValue w env options (ProjectID c) ''nats-url'' ''NATS_URL''
          else NATSURL ?c1)"
    unfolding pid by blast
  from Cons.prems(2) have kinds:
    "(k, e) = (''mongo-uri'', ''MONGO_URI'') \<or> (k, e) = (''db-name'', ''DB_NAME'')
     \<or> (k, e) = (''jwt-secret'', ''JWT_SECRET'') \<or> (k, e) = (''nats-url'', ''NATS_URL'')"
    unfolding x by (simp add: secretMap_def)
  have whole: "loadSecretsLoop w env options c (x # entries) = Inr c'"
    unfolding x loadSecretsLoop_step using here run by simp
  have m: "MongoURI c' = (if (''mongo-uri'', ''MONGO_URI'') \<in> set (x # entries)
          then secretValue w env options (ProjectID c) ''mongo-uri'' ''MONGO_URI''
          else MongoURI c)"
    using kinds mongo unfolding x by (auto simp: assignSecret_def Let_def)
  have d: "DBName c' = (if (''db-name'', ''DB_NAME'') \<in> set (x # entries)
          then dbNameOrDefault (secretValue w env options (ProjectID c) ''db-name'' ''DB_NAME'')
          else DBName c)"
    using kinds db unfolding x by (auto simp: assignSecret_def Let_def dbNameOrDefault_def)
  have j: "JWTSecret c' = (if (''jwt-secret'', ''JWT_SECRET'') \<in> set (x # entries)
          then secretValue w env options (ProjectID c) ''jwt-secret'' ''JWT_SECRET''
          else JWTSecret c)"
    using kinds jwt unfolding x by (auto simp: assignSecret_def Let_def)
  have n: "NATSURL c' = (if (''nats-url'', ''NATS_URL'') \<in> set (x # entries)
          then secretValue w env options (ProjectID c) ''nats-url'' ''NATS_URL''
          else NATSURL c)"
    using kinds nats unfolding x by (auto simp: assignSecret_def Let_def)
  from whole m d j n show ?case by blast
qed

text \<open>The same two facts for \<open>loadSecretsFromManager\<close>, whatever order \<open>range\<close> takes.\<close>

lemma list_ex_cong_set: "set xs = set ys \<Longrightarrow> list_ex P xs = list_ex P ys"
  by (simp add: list_ex_iff)

lemma loadSecretsFromManager_fails:
  assumes "ProjectID c \<noteq> []" and "set (rangeOrder w) = set secretMap"
    and "requiredUnresolved w env options (ProjectID c)"
  shows "\<exists>err. loadSecretsFromManager w env c options = Inl err"
proof -
  from assms(3) have "list_ex (\<lambda>(k, e). unresolved w env options (ProjectID c) k e
       \<and> k \<in> set (RequiredSecrets options)) (rangeOrder w)"
    unfolding requiredUnresolved_def using list_ex_cong_set [OF assms(2)] by simp
  from loadSecretsLoop_fails [OF this] show ?thesis
    by (auto simp: loadSecretsFromManager_def)
qed

lemma loadSecretsFromManager_succeeds:
  assumes "ProjectID c \<noteq> []" and "set (rangeOrder w) = set secretMap"
    and "\<not> requiredUnresolved w env options (ProjectID c)"
  shows "\<exists>c'. loadSecretsFromManager w env c options = Inr c'
     \<and> MongoURI c' = secretValue w env options (ProjectID c) ''mongo-uri'' ''MONGO_URI''
     \<and> DBName c' = dbNameOrDefault (secretValue w env options (ProjectID c) ''db-name'' ''DB_NAME'')
     \<and> JWTSecret c' = secretValue w env options (ProjectID c) ''jwt-secret'' ''JWT_SECRET''
     \<and> NATSURL c' = secretValue w env options (ProjectID c) ''nats-url'' ''NATS_URL''"
proof -
  from assms(3) have none: "\<not> list_ex (\<lambda>(k, e). unresolved w env options (ProjectID c) k e
       \<and> k \<in> set (RequiredSecrets options)) (rangeOrder w)"
    unfolding requiredUnresolved_def using list_ex_cong_set [OF assms(2)] by simp
  have sub: "set (rangeOrder w) \<subseteq> set secretMap" using assms(2) by simp
  have mem: "(''mongo-uri'', ''MONGO_URI'') \<in> set (rangeOrder w)"
    "(''db-name'', ''DB_NAME'') \<in> set (rangeOrder w)"
    "(''jwt-secret'', ''JWT_SECRET'') \<in> set (rangeOrder w)"
    "(''nats-url'', ''NATS_URL'') \<in> set (rangeOrder w)"
    unfolding assms(2) by (simp_all add: secretMap_def)
  from loadSecretsLoop_succeeds [OF none sub] mem assms(1) show ?thesis
    by (auto simp: loadSecretsFromManager_def Let_def)
qed

text \<open>In secret-manager mode the closure is \<open>loadSecretsFromManager\<close> on the project id.\<close>

lemma loadOnce_secret_manager:
  assumes "effectiveMode options env = ModeSecretManager"
  shows "\<exists>c0. ProjectID c0 = effectiveProjectID options (loadingEnviron w env)
     \<and> loadOnce w env options =
         (case loadSecretsFromManager w (loadingEnviron w env) c0 options of
            Inl err \<Rightarrow> Inl err
          | Inr c \<Rightarrow> Inr (c, loadingEnviron w env))"
proof -
  let ?base = "\<lparr>Mode = ModeSecretManager,
                 AppEnv = GetEnv env ''APP_ENV'' ''development'',
                 ProjectID = effectiveProjectID options (loadingEnviron w env),
                 MongoURI = [], DBName = [], JWTSecret = [],
                 NATSURL = [], AllowedOrigins = [],
                 Port = GetEnv env ''PORT'' ''8080'',
                 Version = ConfigVersion,
                 LoadTime = time_Now w\<rparr>"
  have "loadOnce w env options =
         (case loadSecretsFromManager w (loadingEnviron w env) ?base options of
            Inl err \<Rightarrow> Inl err
          | Inr c \<Rightarrow> Inr (c, loadingEnviron w env))"
    using assms
    by (auto simp: loadOnce_def effectiveMode_def effectiveProjectID_def loadingEnviron_def
        Let_def mode_defs split: if_splits sum.splits)
  moreover have "ProjectID ?base = effectiveProjectID options (loadingEnviron w env)"
    by simp
  ultimately show ?thesis by blast
qed

text \<open>
  C1, as the code has it. Take a first load in secret-manager mode with a non-empty
  project id, every entry of \<open>secretMap\<close> being visited in some order. If one of the four
  secrets is unresolved and listed in \<open>RequiredSecrets\<close>, loading aborts. If none is,
  loading succeeds, and for every unresolved secret the field is left empty
  (\<open>mongo-uri\<close>, \<open>jwt-secret\<close>, \<open>nats-url\<close>) or, for \<open>db-name\<close>, holds the default
  database name.
\<close>

theorem unresolved_secrets:
  assumes "\<not> onceDone s"
    and "effectiveMode options (environ s) = ModeSecretManager"
    and "env = loadingEnviron w (environ s)"
    and "pid = effectiveProjectID options env"
    and "pid \<noteq> []"
    and "set (rangeOrder w) = set secretMap"
  shows "(requiredUnresolved w env options pid \<longrightarrow>
            (\<exists>err. LoadEnvWithOptions w options s = Inl (FailedToLoadConfiguration err)))
     \<and> (\<not> requiredUnresolved w env options pid \<longrightarrow>
            (\<exists>s' c. LoadEnvWithOptions w options s = Inr s' \<and> Config s' = Some c
               \<and> (unresolved w env options pid ''mongo-uri'' ''MONGO_URI'' \<longrightarrow> MongoURI c = [])
               \<and> (unresolved w env options pid ''db-name'' ''DB_NAME''
                     \<longrightarrow> DBName c = ''mrexperiences_service'')
               \<and> (unresolved w env options pid ''jwt-secret'' ''JWT_SECRET'' \<longrightarrow> JWTSecret c = [])
               \<and> (unresolved w env options pid ''nats-url'' ''NATS_URL'' \<longrightarrow> NATSURL c = [])))"
proof -
  from loadOnce_secret_manager [OF assms(2), of w] assms(3,4)
  obtain c0 where pid0: "ProjectID c0 = pid"
    and once: "loadOnce w (environ s) options =
         (case loadSecretsFromManager w env c0 options of
            Inl err \<Rightarrow> Inl err
          | Inr c \<Rightarrow> Inr (c, env))"
    by auto
  have ne: "ProjectID c0 \<noteq> []" using pid0 assms(5) by simp
  have fails: "\<exists>err. LoadEnvWithOptions w options s = Inl (FailedToLoadConfiguration err)"
    if "requiredUnresolved w env options pid"
  proof -
    from that pid0 have "requiredUnresolved w env options (ProjectID c0)" by simp
    from loadSecretsFromManager_fails [OF ne assms(6) this]
    show ?thesis using once assms(1) by (auto simp: LoadEnvWithOptions_def)
  qed
  have succeeds: "\<exists>s' c. LoadEnvWithOptions w options s = Inr s' \<and> Config s' = Some c
               \<and> (unresolved w env options pid ''mongo-uri'' ''MONGO_URI'' \<longrightarrow> MongoURI c = [])
               \<and> (unresolved w env options pid ''db-name'' ''DB_NAME''
                     \<longrightarrow> DBName c = ''mrexperiences_service'')
               \<and> (unresolved w env options pid ''jwt-secret'' ''JWT_SECRET'' \<longrightarrow> JWTSecret c = [])
               \<and> (unresolved w env options pid ''nats-url'' ''NATS_URL'' \<longrightarrow> NATSURL c = [])"
    if "\<not> requiredUnresolved w env options pid"
  proof -
    from that pid0 have "\<not> requiredUnresolved w env options (ProjectID c0)" by simp
    from loadSecretsFromManager_succeeds [OF ne assms(6) this] pid0
    obtain c where run: "loadSecretsFromManager w env c0 options = Inr c"
      and m: "MongoURI c = secretValue w env options pid ''mongo-uri'' ''MONGO_URI''"
      and d: "DBName c = dbNameOrDefault (secretValue w env options pid ''db-name'' ''DB_NAME'')"
      and j: "JWTSecret c = secretValue w env options pid ''jwt-secret'' ''JWT_SECRET''"
      and n: "NATSURL c = secretValue w env options pid ''nats-url'' ''NATS_URL''"
      by auto
    have "LoadEnvWithOptions w options s =
        Inr (s\<lparr>Config := Some c, onceDone := True, environ := env\<rparr>)"
      using once run assms(1) by (simp add: LoadEnvWithOptions_def)
    moreover have "Config (s\<lparr>Config := Some c, onceDone := True, environ := env\<rparr>) = Some c"
      by simp
    ultimately show ?thesis
      using m d j n by (auto simp: secretValue_unresolved dbNameOrDefault_def)
  qed
  from fails succeeds show ?thesis by blast
qed

text \<open>
  In the example world the store fails for every secret. With \<open>jwt-secret\<close> required
  and \<open>JWT_SECRET\<close> unset, loading aborts; with \<open>JWT_SECRET\<close> set, loading succeeds and
  the three optional secrets, all unresolved, leave \<open>MongoURI\<close> and \<open>NATSURL\<close> empty and
  \<open>DBName\<close> at its default.
\<close>

theorem unresolved_secrets_witness:
  "requiredUnresolved example_world [''APP_ENV'' \<mapsto> ''production'']
       \<lparr>optMode = ModeSecretManager, EnableSecretManager = True,
        SecretManagerProject = ''proj'', RequiredSecrets = [''jwt-secret''],
        OptionalSecrets = [], FallbackToEnv = True\<rparr> ''proj''
   \<and> (\<exists>err. LoadEnvWithSecretManager example_world ''proj'' [''jwt-secret'']
          (init_state [''APP_ENV'' \<mapsto> ''production'']) = Inl (FailedToLoadConfiguration err))
   \<and> \<not> requiredUnresolved example_world
       [''APP_ENV'' \<mapsto> ''production'', ''JWT_SECRET'' \<mapsto> ''s3cret'']
       \<lparr>optMode = ModeSecretManager, EnableSecretManager = True,
        SecretManagerProject = ''proj'', RequiredSecrets = [''jwt-secret''],
        OptionalSecrets = [], FallbackToEnv = True\<rparr> ''proj''
   \<and> (\<exists>s' c. LoadEnvWithSecretManager example_world ''proj'' [''jwt-secret'']
          (init_state [''APP_ENV'' \<mapsto> ''production'', ''JWT_SECRET'' \<mapsto> ''s3cret'']) = Inr s'
        \<and> Config s' = Some c \<and> MongoURI c = [] \<and> DBName c = ''mrexperiences_service''
        \<and> NATSURL c = [])"
proof -
  let ?opts = "\<lparr>optMode = ModeSecretManager, EnableSecretManager = True,
        SecretManagerProject = ''proj'', RequiredSecrets = [''jwt-secret''],
        OptionalSecrets = [], FallbackToEnv = True\<rparr>"
  let ?e1 = "[''APP_ENV'' \<mapsto> ''production'']"
  let ?e2 = "[''APP_ENV'' \<mapsto> ''production'', ''JWT_SECRET'' \<mapsto> ''s3cret'']"
  have order: "set (rangeOrder example_world) = set secretMap"
    by (simp add: example_world_def)
  have t1: "(requiredUnresolved example_world ?e1 ?opts ''proj'' \<longrightarrow>
            (\<exists>err. LoadEnvWithOptions example_world ?opts (init_state ?e1) =
               Inl (FailedToLoadConfiguration err)))"
    using unresolved_secrets [where s = "init_state ?e1" and options = ?opts
        and env = ?e1 and w = example_world and pid = "''proj''", OF _ _ _ _ _ order]
    by (simp add: init_state_def effectiveMode_def loadingEnviron_def effectiveProjectID_def
        GetEnv_def os_Getenv_def mode_defs)
  have t2: "(\<not> requiredUnresolved example_world ?e2 ?opts ''proj'' \<longrightarrow>
            (\<exists>s' c. LoadEnvWithOptions example_world ?opts (init_state ?e2) = Inr s'
               \<and> Config s' = Some c
               \<and> (unresolved example_world ?e2 ?opts ''proj'' ''mongo-uri'' ''MONGO_URI''
                     \<longrightarrow> MongoURI c = [])
               \<and> (unresolved example_world ?e2 ?opts ''proj'' ''db-name'' ''DB_NAME''
                     \<longrightarrow> DBName c = ''mrexperiences_service'')
               \<and> (unresolved example_world ?e2 ?opts ''proj'' ''jwt-secret'' ''JWT_SECRET''
                     \<longrightarrow> JWTSecret c = [])
               \<and> (unresolved example_world ?e2 ?opts ''proj'' ''nats-url'' ''NATS_URL''
                     \<longrightarrow> NATSURL c = [])))"
    using unresolved_secrets [where s = "init_state ?e2" and options = ?opts
        and env = ?e2 and w = example_world and pid = "''proj''", OF _ _ _ _ _ order]
    by (simp add: init_state_def effectiveMode_def loadingEnviron_def effectiveProjectID_def
        GetEnv_def os_Getenv_def mode_defs)
  have r1: "requiredUnresolved example_world ?e1 ?opts ''proj''"
    by (simp add: requiredUnresolved_def unresolved_def secretMap_def example_world_def
        os_Getenv_def)
  have r2: "\<not> requiredUnresolved example_world ?e2 ?opts ''proj''"
    by (simp add: requiredUnresolved_def unresolved_def secretMap_def example_world_def
        os_Getenv_def)
  have u: "unresolved example_world ?e2 ?opts ''proj'' ''mongo-uri'' ''MONGO_URI''"
    "unresolved example_world ?e2 ?opts ''proj'' ''db-name'' ''DB_NAME''"
    "unresolved example_world ?e2 ?opts ''proj'' ''nats-url'' ''NATS_URL''"
    by (simp_all add: unresolved_def example_world_def os_Getenv_def)
  from t1 r1 t2 r2 u show ?thesis
    unfolding LoadEnvWithSecretManager_def by blast
qed

text \<open>
  C1 as stated fails for \<open>db-name\<close>: in the example world, with fallback allowed and
  \<open>DB_NAME\<close> unset, the secret is unresolved and not required, loading succeeds, and the
  database name then read is not empty.
\<close>

theorem unresolved_secrets_counterexample:
  "unresolved example_world [''APP_ENV'' \<mapsto> ''production'']
       (default_options\<lparr>optMode := ModeSecretManager, SecretManagerProject := ''proj''\<rparr>)
       ''proj'' ''db-name'' ''DB_NAME''
   \<and> ''db-name'' \<notin> set (RequiredSecrets
       (default_options\<lparr>optMode := ModeSecretManager, SecretManagerProject := ''proj''\<rparr>))
   \<and> (case LoadEnvWithOptions example_world
             (default_options\<lparr>optMode := ModeSecretManager, SecretManagerProject := ''proj''\<rparr>)
             (init_state [''APP_ENV'' \<mapsto> ''production'']) of
         Inl a \<Rightarrow> Inl a
       | Inr s' \<Rightarrow> GetDBName s') = Inr ''mrexperiences_service''"
  by (simp add: unresolved_def eval_defs GetDBName_def)

section \<open>The audit writer\<close>

lemma GetCollection_connected:
  "DB s = Some client \<Longrightarrow> Config s = Some c \<Longrightarrow>
     GetCollection s name =
       Inr \<lparr>collClient = client, collDatabase = DBName c, collName = name\<rparr>"
  by (simp add: GetCollection_def GetDBName_def)

text \<open>
  Before \<open>ConnectDB\<close> the call does not reach the insertion: \<open>GetCollection\<close> aborts.
\<close>

lemma LogAudit_not_connected:
  "DB s = None \<Longrightarrow> LogAudit w s adminID action targetID = Inl DatabaseNotConnected"
  by (simp add: LogAudit_def GetCollection_def)

text \<open>The document handed to the store carries the arguments as given.\<close>

lemma LogAudit_submitted:
  "LogAudit w s adminID action targetID = Inr eff \<Longrightarrow>
     submitted eff = \<lparr>ID = NewObjectID w, AdminID = adminID, Action = action,
                       TargetID = targetID, Timestamp = time_Now w\<rparr>"
  by (auto simp: LogAudit_def Let_def split: sum.splits option.splits)

text \<open>
  C7. With the configuration loaded and the database connected, \<open>LogAudit\<close> returns
  normally whatever \<open>InsertOne\<close> answers: when the insertion fails, the only trace is
  the line \<open>Failed to log audit: ...\<close> it prints; when it succeeds, nothing is printed.
\<close>

theorem audit_failure_is_swallowed:
  assumes "DB s = Some client" and "Config s = Some c"
    and "collection = \<lparr>collClient = client, collDatabase = DBName c,
                          collName = ''oms_audit_logs''\<rparr>"
  shows "\<exists>eff. LogAudit w s adminID action targetID = Inr eff
     \<and> printed eff =
         (case InsertOne w collection (submitted eff) of
            None \<Rightarrow> []
          | Some err \<Rightarrow> [''Failed to log audit: '' @ Error err])"
proof -
  have coll: "GetCollection s ''oms_audit_logs'' = Inr collection"
    using GetCollection_connected [OF assms(1,2)] assms(3) by simp
  show ?thesis
    by (cases "InsertOne w collection
          \<lparr>ID = NewObjectID w, AdminID = adminID, Action = action,
           TargetID = targetID, Timestamp = time_Now w\<rparr>")
       (simp_all add: LogAudit_def coll Let_def)
qed

text \<open>
  In the example world the store refuses the insert; the call still returns, having
  printed the failure.
\<close>

theorem audit_failure_is_swallowed_witness:
  "LogAudit example_world connected_state ''admin1'' ''delete_user'' ''user42'' =
     Inr \<lparr>submitted = \<lparr>ID = 1, AdminID = ''admin1'', Action = ''delete_user'',
                          TargetID = ''user42'', Timestamp = 0\<rparr>,
          printed = [''Failed to log audit: context deadline exceeded'']\<rparr>"
proof -
  let ?c = "\<lparr>Mode = ''basic'', AppEnv = ''production'', ProjectID = [],
                MongoURI = ''mongodb://db:27017'', DBName = ''mrexperiences_service'',
                JWTSecret = ''k'', NATSURL = [],
                AllowedOrigins = ''https://your-production-domain.com'',
                Port = ''8080'', Version = ''2.0.0'', LoadTime = 0\<rparr>"
  have db: "DB connected_state = Some (Client ''mongodb://db:27017'')"
    and cfg: "Config connected_state = Some ?c"
    by (simp_all add: connected_state_def)
  from audit_failure_is_swallowed [OF db cfg refl, of example_world "''admin1''"
      "''delete_user''" "''user42''"]
  obtain eff where run: "LogAudit example_world connected_state ''admin1'' ''delete_user''
        ''user42'' = Inr eff"
    and pr: "printed eff =
         (case InsertOne example_world
                 \<lparr>collClient = Client ''mongodb://db:27017'', collDatabase = DBName ?c,
                  collName = ''oms_audit_logs''\<rparr> (submitted eff) of
            None \<Rightarrow> []
          | Some err \<Rightarrow> [''Failed to log audit: '' @ Error err])"
    by blast
  from LogAudit_submitted [OF run]
  have sub: "submitted eff = \<lparr>ID = 1, AdminID = ''admin1'', Action = ''delete_user'',
                          TargetID = ''user42'', Timestamp = 0\<rparr>"
    by (simp add: example_world_def)
  from pr have "printed eff = [''Failed to log audit: context deadline exceeded'']"
    by (simp add: example_world_def)
  with sub run show ?thesis by simp
qed

section \<open>Refresh-token verification\<close>

text \<open>
  After a first load in basic mode the configured signing secret is the \<open>JWT_SECRET\<close>
  variable the token code reads.
\<close>

lemma basic_mode_jwt_secret:
  assumes "\<not> onceDone s" and "effectiveMode options (environ s) = ModeBasic"
  shows "\<exists>s'. LoadEnvWithOptions w options s = Inr s'
     \<and> GetJWTSecret s' = Inr (os_Getenv (environ s') ''JWT_SECRET'')"
proof -
  from loadOnce_basic_mode [OF assms(2), of w]
  obtain c0 where once: "loadOnce w (environ s) options =
         (case loadBasicConfig (loadingEnviron w (environ s)) c0 of
            Inl err \<Rightarrow> Inl err
          | Inr c \<Rightarrow> Inr (c, loadingEnviron w (environ s)))"
    by auto
  obtain c where run: "loadBasicConfig (loadingEnviron w (environ s)) c0 = Inr c"
    and secret: "JWTSecret c = os_Getenv (loadingEnviron w (environ s)) ''JWT_SECRET''"
    by (simp add: loadBasicConfig_def Let_def GetEnv_empty)
  have "LoadEnvWithOptions w options s =
      Inr (s\<lparr>Config := Some c, onceDone := True, environ := loadingEnviron w (environ s)\<rparr>)"
    using once run assms(1) by (simp add: LoadEnvWithOptions_def)
  then show ?thesis using secret by (simp add: GetJWTSecret_def)
qed




section \<open>The authentication middleware\<close>

lemma assertString_string:
  "isStringClaim claims key \<Longrightarrow> \<exists>v. assertString claims key = Inr v"
  by (auto simp: isStringClaim_def assertString_def split: option.splits json_value.splits)

lemma assertString_panics:
  "\<not> isStringClaim claims key \<Longrightarrow>
     assertString claims key =
       Inl (''interface conversion: interface {} is '' @ goTypeName (claims key)
            @ '', not string'')"
  by (auto simp: isStringClaim_def assertString_def split: option.splits json_value.splits)

text \<open>
  C10, as the code has it. A request carries a non-empty \<open>Authorization\<close> header, and
  the key handed to the token library is the \<open>JWT_SECRET\<close> variable of the process.
  If the library returns no error for the header value (signature, expiry and every
  other check it makes pass) and the claims lack a string \<open>user_id\<close> or a string
  \<open>organization_id\<close>, both revisions of \<open>AuthMiddleware\<close> panic on the first failing
  type assertion: they neither answer with status 401 nor pass the request on. If the
  library returns an error, whatever its cause and whatever the claims hold, both
  revisions answer 401 \<open>Invalid token\<close>.
\<close>

theorem unchecked_claims_panic:
  assumes "tokenString = ctx_Get c ''Authorization''"
    and "tokenString \<noteq> []"
    and "key = os_Getenv env ''JWT_SECRET''"
  shows "(\<forall>claims p.
            jwt_ParseWithClaims w tokenString key = (claims, None)
            \<and> \<not> (isStringClaim claims ''user_id'' \<and> isStringClaim claims ''organization_id'')
            \<and> p = Panic (''interface conversion: interface {} is ''
                     @ goTypeName (claims (if isStringClaim claims ''user_id''
                                           then ''organization_id'' else ''user_id''))
                     @ '', not string'')
            \<longrightarrow> AuthMiddleware w env c = p
              \<and> AuthMiddleware_v1 w env c = p
              \<and> (\<forall>body. AuthMiddleware w env c \<noteq> Response StatusUnauthorized body)
              \<and> (\<forall>body. AuthMiddleware_v1 w env c \<noteq> Response StatusUnauthorized body))
     \<and> (\<forall>claims err.
            jwt_ParseWithClaims w tokenString key = (claims, Some err)
            \<longrightarrow> AuthMiddleware w env c =
                  Response StatusUnauthorized [(''error'', ''Invalid token'')]
              \<and> AuthMiddleware_v1 w env c =
                  Response StatusUnauthorized [(''error'', ''Invalid token'')])"
proof -
  have panics: "AuthMiddleware w env c = p \<and> AuthMiddleware_v1 w env c = p"
    if parse: "jwt_ParseWithClaims w tokenString key = (claims, None)"
      and lacks: "\<not> (isStringClaim claims ''user_id'' \<and> isStringClaim claims ''organization_id'')"
      and p: "p = Panic (''interface conversion: interface {} is ''
                     @ goTypeName (claims (if isStringClaim claims ''user_id''
                                           then ''organization_id'' else ''user_id''))
                     @ '', not string'')"
    for claims p
  proof (cases "isStringClaim claims ''user_id''")
    case False
    from assertString_panics [OF this] parse p False assms show ?thesis
      by (simp add: AuthMiddleware_def AuthMiddleware_v1_def Let_def)
  next
    case True
    with lacks have org: "\<not> isStringClaim claims ''organization_id''" by simp
    from assertString_string [OF True] obtain v where
      "assertString claims ''user_id'' = Inr v" by blast
    with assertString_panics [OF org] parse p True assms show ?thesis
      by (simp add: AuthMiddleware_def AuthMiddleware_v1_def Let_def)
  qed
  have rejected: "AuthMiddleware w env c =
                  Response StatusUnauthorized [(''error'', ''Invalid token'')]
              \<and> AuthMiddleware_v1 w env c =
                  Response StatusUnauthorized [(''error'', ''Invalid token'')]"
    if "jwt_ParseWithClaims w tokenString key = (claims, Some err)" for claims err
    using that assms by (simp add: AuthMiddleware_def AuthMiddleware_v1_def Let_def)
  from panics rejected show ?thesis by (simp (no_asm_simp))
qed

text \<open>
  In the example world, under the key \<open>k\<close>: a refresh token, which has no
  \<open>organization_id\<close>, makes the middleware panic, as does a token whose \<open>user_id\<close> is a
  number; a string the library rejects gets the 401.
\<close>

theorem unchecked_claims_panic_witness:
  "AuthMiddleware example_world [''JWT_SECRET'' \<mapsto> ''k'']
       \<lparr>reqHeaders = [''Authorization'' \<mapsto> ''refresh-token''], Locals = Map.empty\<rparr>
     = Panic ''interface conversion: interface {} is nil, not string''
   \<and> AuthMiddleware_v1 example_world [''JWT_SECRET'' \<mapsto> ''k'']
       \<lparr>reqHeaders = [''Authorization'' \<mapsto> ''refresh-token''], Locals = Map.empty\<rparr>
     = Panic ''interface conversion: interface {} is nil, not string''
   \<and> AuthMiddleware example_world [''JWT_SECRET'' \<mapsto> ''k'']
       \<lparr>reqHeaders = [''Authorization'' \<mapsto> ''numeric-id-token''], Locals = Map.empty\<rparr>
     = Panic ''interface conversion: interface {} is float64, not string''
   \<and> AuthMiddleware example_world [''JWT_SECRET'' \<mapsto> ''k'']
       \<lparr>reqHeaders = [''Authorization'' \<mapsto> ''refresh-tokem''], Locals = Map.empty\<rparr>
     = Response 401 [(''error'', ''Invalid token'')]"
proof -
  let ?env = "[''JWT_SECRET'' \<mapsto> ''k'']"
  let ?c1 = "\<lparr>reqHeaders = [''Authorization'' \<mapsto> ''refresh-token''], Locals = Map.empty\<rparr>"
  let ?c2 = "\<lparr>reqHeaders = [''Authorization'' \<mapsto> ''numeric-id-token''], Locals = Map.empty\<rparr>"
  let ?c3 = "\<lparr>reqHeaders = [''Authorization'' \<mapsto> ''refresh-tokem''], Locals = Map.empty\<rparr>"
  have key: "''k'' = os_Getenv ?env ''JWT_SECRET''" by (simp add: os_Getenv_def)
  have h1: "''refresh-token'' = ctx_Get ?c1 ''Authorization''"
    and h2: "''numeric-id-token'' = ctx_Get ?c2 ''Authorization''"
    and h3: "''refresh-tokem'' = ctx_Get ?c3 ''Authorization''"
    by (simp_all add: ctx_Get_def)
  have p1: "jwt_ParseWithClaims example_world ''refresh-token'' ''k'' =
      (refreshTokenClaims ''u1'' 0, None)"
    and p2: "jwt_ParseWithClaims example_world ''numeric-id-token'' ''k'' =
      ([''user_id'' \<mapsto> JNumber 7, ''organization_id'' \<mapsto> JString ''org1''], None)"
    and p3: "jwt_ParseWithClaims example_world ''refresh-tokem'' ''k'' =
      (Map.empty, Some (ExternalError ''signature is invalid''))"
    by (simp_all add: example_world_def)
  have n1: "\<not> (isStringClaim (refreshTokenClaims ''u1'' 0) ''user_id''
          \<and> isStringClaim (refreshTokenClaims ''u1'' 0) ''organization_id'')"
    and s1: "isStringClaim (refreshTokenClaims ''u1'' 0) ''user_id''"
    and t1: "goTypeName (refreshTokenClaims ''u1'' 0 ''organization_id'') = ''nil''"
    by (simp_all add: isStringClaim_def refreshTokenClaims_def)
  have n2: "\<not> (isStringClaim [''user_id'' \<mapsto> JNumber 7,
                 ''organization_id'' \<mapsto> JString ''org1''] ''user_id''
          \<and> isStringClaim [''user_id'' \<mapsto> JNumber 7,
                 ''organization_id'' \<mapsto> JString ''org1''] ''organization_id'')"
    and s2: "\<not> isStringClaim [''user_id'' \<mapsto> JNumber 7,
                 ''organization_id'' \<mapsto> JString ''org1''] ''user_id''"
    and t2: "goTypeName ([''user_id'' \<mapsto> JNumber 7,
                 ''organization_id'' \<mapsto> JString ''org1''] ''user_id'') = ''float64''"
    by (simp_all add: isStringClaim_def)
  from unchecked_claims_panic [OF h1 _ key, of example_world] p1 n1 s1 t1
  have a: "AuthMiddleware example_world ?env ?c1
       = Panic ''interface conversion: interface {} is nil, not string''
     \<and> AuthMiddleware_v1 example_world ?env ?c1
       = Panic ''interface conversion: interface {} is nil, not string''"
    by simp
  from unchecked_claims_panic [OF h2 _ key, of example_world] p2 n2 s2 t2
  have b: "AuthMiddleware example_world ?env ?c2
       = Panic ''interface conversion: interface {} is float64, not string''"
    by simp
  from unchecked_claims_panic [OF h3 _ key, of example_world] p3
  have c: "AuthMiddleware example_world ?env ?c3
       = Response 401 [(''error'', ''Invalid token'')]"
    by (simp add: StatusUnauthorized_def)
  from a b c show ?thesis by simp
qed

text \<open>
  C10 as stated fails on tokens whose signature verifies but which the middleware
  still rejects. In the second world, under the key \<open>k\<close>, a correctly signed token
  that has expired and has no \<open>organization_id\<close> gets the 401, not a panic. And after
  a secret-manager load that takes the signing secret from the store with
  \<open>JWT_SECRET\<close> unset, a token without \<open>organization_id\<close> that verifies under the
  configured secret gets the 401 as well, because the middleware verifies under the
  empty \<open>JWT_SECRET\<close>.
\<close>

theorem unchecked_claims_panic_counterexample:
  "jwt_ParseWithClaims store_world ''expired-token'' ''k'' =
       (refreshTokenClaims ''u1'' (- 700000), Some (ExternalError ''token is expired''))
   \<and> \<not> isStringClaim (refreshTokenClaims ''u1'' (- 700000)) ''organization_id''
   \<and> AuthMiddleware store_world [''JWT_SECRET'' \<mapsto> ''k'']
       \<lparr>reqHeaders = [''Authorization'' \<mapsto> ''expired-token''], Locals = Map.empty\<rparr>
     = Response 401 [(''error'', ''Invalid token'')]
   \<and> AuthMiddleware_v1 store_world [''JWT_SECRET'' \<mapsto> ''k'']
       \<lparr>reqHeaders = [''Authorization'' \<mapsto> ''expired-token''], Locals = Map.empty\<rparr>
     = Response 401 [(''error'', ''Invalid token'')]
   \<and> (case LoadEnvWithSecretManager store_world ''proj'' [''jwt-secret'']
           (init_state [''APP_ENV'' \<mapsto> ''production'']) of
        Inl a \<Rightarrow> Inl a
      | Inr s' \<Rightarrow> GetJWTSecret s') = Inr ''s3cret''
   \<and> jwt_ParseWithClaims store_world ''token-signed-with-s3cret'' ''s3cret'' =
       (refreshTokenClaims ''u1'' 0, None)
   \<and> \<not> isStringClaim (refreshTokenClaims ''u1'' 0) ''organization_id''
   \<and> (case LoadEnvWithSecretManager store_world ''proj'' [''jwt-secret'']
           (init_state [''APP_ENV'' \<mapsto> ''production'']) of
        Inl a \<Rightarrow> None
      | Inr s' \<Rightarrow> Some (AuthMiddleware store_world (environ s')
           \<lparr>reqHeaders = [''Authorization'' \<mapsto> ''token-signed-with-s3cret''],
            Locals = Map.empty\<rparr>)) =
       Some (Response 401 [(''error'', ''Invalid token'')])"
proof -
  have load: "LoadEnvWithSecretManager store_world ''proj'' [''jwt-secret'']
           (init_state [''APP_ENV'' \<mapsto> ''production'']) =
      Inr \<lparr>Config = Some \<lparr>Mode = ''secret_manager'', AppEnv = ''production'',
              ProjectID = ''proj'', MongoURI = [], DBName = ''mrexperiences_service'',
              JWTSecret = ''s3cret'', NATSURL = [],
              AllowedOrigins = ''https://your-production-domain.com'',
              Port = ''8080'', Version = ''2.0.0'', LoadTime = 0\<rparr>,
            onceDone = True, environ = [''APP_ENV'' \<mapsto> ''production''], DB = None\<rparr>"
    by (simp add: LoadEnvWithSecretManager_def store_world_def eval_defs)
  have parse: "jwt_ParseWithClaims store_world ''expired-token'' ''k'' =
       (refreshTokenClaims ''u1'' (- 700000), Some (ExternalError ''token is expired''))"
    "jwt_ParseWithClaims store_world ''token-signed-with-s3cret'' ''s3cret'' =
       (refreshTokenClaims ''u1'' 0, None)"
    "jwt_ParseWithClaims store_world ''token-signed-with-s3cret'' [] =
       (Map.empty, Some (ExternalError ''signature is invalid''))"
    by (simp_all add: store_world_def)
  have lacks: "\<not> isStringClaim (refreshTokenClaims ''u1'' (- 700000)) ''organization_id''"
    "\<not> isStringClaim (refreshTokenClaims ''u1'' 0) ''organization_id''"
    by (simp_all add: isStringClaim_def refreshTokenClaims_def)
  have expired: "AuthMiddleware store_world [''JWT_SECRET'' \<mapsto> ''k'']
       \<lparr>reqHeaders = [''Authorization'' \<mapsto> ''expired-token''], Locals = Map.empty\<rparr>
     = Response 401 [(''error'', ''Invalid token'')]"
    "AuthMiddleware_v1 store_world [''JWT_SECRET'' \<mapsto> ''k'']
       \<lparr>reqHeaders = [''Authorization'' \<mapsto> ''expired-token''], Locals = Map.empty\<rparr>
     = Response 401 [(''error'', ''Invalid token'')]"
    by (simp_all add: AuthMiddleware_def AuthMiddleware_v1_def ctx_Get_def os_Getenv_def
        parse StatusUnauthorized_def Let_def)
  have other_key: "AuthMiddleware store_world [''APP_ENV'' \<mapsto> ''production'']
           \<lparr>reqHeaders = [''Authorization'' \<mapsto> ''token-signed-with-s3cret''],
            Locals = Map.empty\<rparr>
     = Response 401 [(''error'', ''Invalid token'')]"
    by (simp add: AuthMiddleware_def ctx_Get_def os_Getenv_def parse StatusUnauthorized_def
        Let_def)
  show ?thesis
    unfolding load by (simp add: GetJWTSecret_def parse lacks expired other_key)
qed

end
